theory Spec2Isabelle
  imports Complex_Main
begin

section \<open>The training and validation loop of example.py\<close>

text \<open>
  The file example.py is glue code over a deep-learning framework (torch, torchvision) and
  an experiment library (haven). The embedding keeps the control flow, the state and the
  error paths of example.py as they are written and takes the numerical operations of the
  framework as parameters (the record \<open>env\<close>): tensors are values of an abstract type
  \<open>'t\<close>, one input sample is a value of \<open>'x\<close>, the state of the random generator is
  a value of \<open>'r\<close>. Python floats are modelled as reals, so rounding is not modelled.
\<close>

subsection \<open>Errors and Python values\<close>

datatype error =
    NameError string
  | KeyError string
  | TypeError
  | AttributeError
  | IndexError
  | ZeroDivisionError
  | ValueError
  | RuntimeError
  | DeserializationError

text \<open>The values a configuration holds (strings, integers, floats).\<close>

datatype hval = HStr string | HInt int | HFloat real

type_synonym exp_dict = "(string \<times> hval) list"

text \<open>\<open>d[k]\<close> on a dictionary: KeyError when the key is missing.\<close>

definition getitem :: "exp_dict \<Rightarrow> string \<Rightarrow> error + hval" where
  "getitem d k = (case map_of d k of None \<Rightarrow> Inl (KeyError k) | Some v \<Rightarrow> Inr v)"

text \<open>One score record: \<open>{'train_loss': .., 'val_acc': .., 'epoch': ..}\<close>.\<close>

record score_dict =
  train_loss :: real
  val_acc :: real
  epoch :: int

subsection \<open>Model state\<close>

text \<open>
  A parameter tensor with its \<open>.grad\<close> field; a linear layer; the SGD optimizer (its one
  parameter group: the learning rate and the number of parameters it holds); the MLP object.
\<close>

record 't Parameter =
  data :: 't
  grad :: "'t option"

record 't Linear =
  weight :: "'t Parameter"
  bias :: "'t Parameter"

record SGD =
  lr :: real
  n_params :: nat

record 't MLP =
  input_size :: nat
  hidden_layers :: "'t Linear list"
  output_layer :: "'t Linear"
  opt :: SGD
  training :: bool

text \<open>The dictionary \<open>{'model': .., 'opt': ..}\<close> of \<open>get_state_dict\<close>.\<close>

record 't state_dict =
  sd_model :: "(string \<times> 't) list"
  sd_opt :: SGD

type_synonym 'x batch = "'x list \<times> int list"

record 'x DataLoader =
  dataset :: "('x \<times> int) list"
  shuffle :: bool
  batch_size :: nat

subsection \<open>The world: files, random generator, gradient mode, standard output\<close>

datatype 't file_content = Json exp_dict | Pth "'t state_dict" | Pkl "score_dict list"

datatype line =
    PPrint exp_dict
  | ExperimentSaved string
  | StartingAt int
  | TrainProgress nat real
  | ValProgress nat real
  | ScoreTail "score_dict list"
  | CheckpointSaved string
  | ExperimentCompleted

text \<open>
  The files are an association list from paths to contents; directories are implicit in
  the paths.
\<close>

record ('t, 'r) world =
  files :: "(string \<times> 't file_content) list"
  rng :: 'r
  grad_enabled :: bool
  stdout :: "line list"

subsection \<open>The consumed interfaces\<close>

text \<open>
  The operations of torch, torchvision and haven that example.py calls. The tensor
  operations that record a computation graph take the gradient mode as their first
  argument. \<open>grad_of loss i\<close> is the gradient of \<open>loss\<close> for the \<open>i\<close>-th parameter of
  the model, \<open>sgd_update lr p g\<close> the value of a parameter after one SGD update.
\<close>

record ('x, 't, 'r) env =
  hash_dict :: "exp_dict \<Rightarrow> string"
  backup_path :: "string \<Rightarrow> string"
  MNIST :: "string \<Rightarrow> bool \<Rightarrow> error + ('x \<times> int) list"
  randperm :: "nat \<Rightarrow> 'r \<Rightarrow> nat list \<times> 'r"
  nn_Linear :: "nat \<Rightarrow> nat \<Rightarrow> 'r \<Rightarrow> ('t \<times> 't) \<times> 'r"
  shape :: "'t \<Rightarrow> nat list"
  view :: "bool \<Rightarrow> 'x list \<Rightarrow> nat \<Rightarrow> error + 't"
  F_linear :: "bool \<Rightarrow> 't \<Rightarrow> 't \<Rightarrow> 't \<Rightarrow> error + 't"
  F_relu :: "bool \<Rightarrow> 't \<Rightarrow> 't"
  F_log_softmax :: "bool \<Rightarrow> 't \<Rightarrow> 't"
  F_nll_loss :: "bool \<Rightarrow> 't \<Rightarrow> int list \<Rightarrow> error + 't"
  argmax :: "'t \<Rightarrow> int list"
  item :: "'t \<Rightarrow> real"
  grad_of :: "'t \<Rightarrow> nat \<Rightarrow> 't"
  tensor_add :: "'t \<Rightarrow> 't \<Rightarrow> 't"
  sgd_update :: "real \<Rightarrow> 't \<Rightarrow> 't \<Rightarrow> 't"

subsection \<open>MLP: construction and forward pass\<close>

definition new_Linear ::
  "('x, 't, 'r) env \<Rightarrow> nat \<Rightarrow> nat \<Rightarrow> 'r \<Rightarrow> 't Linear \<times> 'r" where
  "new_Linear E n_in n_out r =
     (case nn_Linear E n_in n_out r of
        ((w, b), r') \<Rightarrow>
          (\<lparr>weight = \<lparr>data = w, grad = None\<rparr>, bias = \<lparr>data = b, grad = None\<rparr>\<rparr>, r'))"

text \<open>\<open>self.parameters()\<close>, in registration order.\<close>

definition parameters :: "'t MLP \<Rightarrow> 't Parameter list" where
  "parameters m =
     concat (map (\<lambda>l. [weight l, bias l]) (hidden_layers m))
       @ [weight (output_layer m), bias (output_layer m)]"

definition MLP_init ::
  "('x, 't, 'r) env \<Rightarrow> nat \<Rightarrow> nat \<Rightarrow> 'r \<Rightarrow> 't MLP \<times> 'r" where
  "MLP_init E input_size' n_classes r =
     (case new_Linear E input_size' 256 r of
        (h, r1) \<Rightarrow>
          (case new_Linear E 256 n_classes r1 of
             (out, r2) \<Rightarrow>
               (let m = \<lparr>input_size = input_size', hidden_layers = [h], output_layer = out,
                         opt = \<lparr>lr = 0, n_params = 0\<rparr>, training = True\<rparr>
                in (m\<lparr>opt := \<lparr>lr = 1 / 1000, n_params = length (parameters m)\<rparr>\<rparr>, r2))))"

definition call_Linear ::
  "('x, 't, 'r) env \<Rightarrow> bool \<Rightarrow> 't Linear \<Rightarrow> 't \<Rightarrow> error + 't" where
  "call_Linear E ge l x = F_linear E ge x (data (weight l)) (data (bias l))"

fun forward_hidden ::
  "('x, 't, 'r) env \<Rightarrow> bool \<Rightarrow> 't Linear list \<Rightarrow> 't \<Rightarrow> error + 't" where
  "forward_hidden E ge [] out = Inr out"
| "forward_hidden E ge (layer # layers) out =
     (case call_Linear E ge layer out of
        Inl e \<Rightarrow> Inl e
      | Inr Z \<Rightarrow> forward_hidden E ge layers (F_relu E ge Z))"

definition forward ::
  "('x, 't, 'r) env \<Rightarrow> bool \<Rightarrow> 't MLP \<Rightarrow> 'x list \<Rightarrow> error + 't" where
  "forward E ge m x =
     (case view E ge x (input_size m) of
        Inl e \<Rightarrow> Inl e
      | Inr x' \<Rightarrow>
          (case forward_hidden E ge (hidden_layers m) x' of
             Inl e \<Rightarrow> Inl e
           | Inr out \<Rightarrow> call_Linear E ge (output_layer m) out))"

subsection \<open>MLP: state dictionaries\<close>

text \<open>\<open>str(i)\<close> for the index of a layer in a module list.\<close>

definition string_of_digit :: "nat \<Rightarrow> char" where
  "string_of_digit n = ''0123456789'' ! n"

fun string_of_nat :: "nat \<Rightarrow> string" where
  "string_of_nat n =
     (if n < 10 then [string_of_digit n]
      else string_of_nat (n div 10) @ [string_of_digit (n mod 10)])"

declare string_of_nat.simps [simp del]

definition linear_state :: "string \<Rightarrow> 't Linear \<Rightarrow> (string \<times> 't) list" where
  "linear_state prefix l =
     [(prefix @ ''weight'', data (weight l)), (prefix @ ''bias'', data (bias l))]"

definition hidden_prefix :: "nat \<Rightarrow> string" where
  "hidden_prefix i = ''hidden_layers.'' @ string_of_nat i @ ''.''"

fun hidden_state :: "nat \<Rightarrow> 't Linear list \<Rightarrow> (string \<times> 't) list" where
  "hidden_state i [] = []"
| "hidden_state i (l # ls) = linear_state (hidden_prefix i) l @ hidden_state (Suc i) ls"

text \<open>\<open>self.state_dict()\<close>: the parameter tensors under their dotted names.\<close>

definition model_state_dict :: "'t MLP \<Rightarrow> (string \<times> 't) list" where
  "model_state_dict m =
     hidden_state 0 (hidden_layers m) @ linear_state ''output_layer.'' (output_layer m)"

definition get_state_dict :: "'t MLP \<Rightarrow> 't state_dict" where
  "get_state_dict m = \<lparr>sd_model = model_state_dict m, sd_opt = opt m\<rparr>"

definition load_Linear :: "(string \<times> 't) list \<Rightarrow> string \<Rightarrow> 't Linear \<Rightarrow> 't Linear" where
  "load_Linear sd prefix l =
     l\<lparr>weight := (weight l)\<lparr>data := the (map_of sd (prefix @ ''weight''))\<rparr>,
       bias := (bias l)\<lparr>data := the (map_of sd (prefix @ ''bias''))\<rparr>\<rparr>"

fun load_hidden :: "(string \<times> 't) list \<Rightarrow> nat \<Rightarrow> 't Linear list \<Rightarrow> 't Linear list" where
  "load_hidden sd i [] = []"
| "load_hidden sd i (l # ls) = load_Linear sd (hidden_prefix i) l # load_hidden sd (Suc i) ls"

text \<open>
  \<open>self.load_state_dict(sd)\<close>, strict: the keys of \<open>sd\<close> are those of the model, each
  tensor has the shape of the parameter it replaces, and the tensors are copied into the
  parameters (the \<open>.grad\<close> fields stay). The \<open>the\<close> below is applied to keys that the
  first check has found in \<open>sd\<close>.
\<close>

definition load_state_dict ::
  "('x, 't, 'r) env \<Rightarrow> 't MLP \<Rightarrow> (string \<times> 't) list \<Rightarrow> error + 't MLP" where
  "load_state_dict E m sd =
     (if set (map fst sd) \<noteq> set (map fst (model_state_dict m)) then Inl RuntimeError
      else if \<not> list_all (\<lambda>(k, t). map_option (shape E) (map_of sd k) = Some (shape E t))
                 (model_state_dict m)
      then Inl RuntimeError
      else Inr (m\<lparr>hidden_layers := load_hidden sd 0 (hidden_layers m),
                  output_layer := load_Linear sd ''output_layer.'' (output_layer m)\<rparr>))"

text \<open>\<open>self.opt.load_state_dict(sd)\<close>: the parameter group must have the saved size.\<close>

definition opt_load_state_dict :: "SGD \<Rightarrow> SGD \<Rightarrow> error + SGD" where
  "opt_load_state_dict o' sd =
     (if n_params sd \<noteq> n_params o' then Inl ValueError else Inr (o'\<lparr>lr := lr sd\<rparr>))"

definition set_state_dict ::
  "('x, 't, 'r) env \<Rightarrow> 't MLP \<Rightarrow> 't state_dict \<Rightarrow> error + 't MLP" where
  "set_state_dict E m sd =
     (case load_state_dict E m (sd_model sd) of
        Inl e \<Rightarrow> Inl e
      | Inr m1 \<Rightarrow>
          (case opt_load_state_dict (opt m1) (sd_opt sd) of
             Inl e \<Rightarrow> Inl e
           | Inr o' \<Rightarrow> Inr (m1\<lparr>opt := o'\<rparr>)))"

subsection \<open>MLP: one batch\<close>

definition map_Linear :: "('t Parameter \<Rightarrow> 't Parameter) \<Rightarrow> 't Linear \<Rightarrow> 't Linear" where
  "map_Linear f l = l\<lparr>weight := f (weight l), bias := f (bias l)\<rparr>"

definition map_parameters :: "('t Parameter \<Rightarrow> 't Parameter) \<Rightarrow> 't MLP \<Rightarrow> 't MLP" where
  "map_parameters f m =
     m\<lparr>hidden_layers := map (map_Linear f) (hidden_layers m),
       output_layer := map_Linear f (output_layer m)\<rparr>"

text \<open>\<open>self.opt.zero_grad()\<close>: every gradient is reset.\<close>

definition zero_grad :: "'t MLP \<Rightarrow> 't MLP" where
  "zero_grad m = map_parameters (\<lambda>p. p\<lparr>grad := None\<rparr>) m"

text \<open>\<open>loss.backward()\<close>: the gradient of the loss is added to every \<open>.grad\<close>.\<close>

definition accumulate :: "('x, 't, 'r) env \<Rightarrow> 't Parameter \<Rightarrow> 't \<Rightarrow> 't Parameter" where
  "accumulate E p g =
     p\<lparr>grad := Some (case grad p of None \<Rightarrow> g | Some g0 \<Rightarrow> tensor_add E g0 g)\<rparr>"

definition backward_Linear ::
  "('x, 't, 'r) env \<Rightarrow> 't \<Rightarrow> nat \<Rightarrow> 't Linear \<Rightarrow> 't Linear" where
  "backward_Linear E loss i l =
     l\<lparr>weight := accumulate E (weight l) (grad_of E loss i),
       bias := accumulate E (bias l) (grad_of E loss (Suc i))\<rparr>"

fun backward_hidden ::
  "('x, 't, 'r) env \<Rightarrow> 't \<Rightarrow> nat \<Rightarrow> 't Linear list \<Rightarrow> 't Linear list" where
  "backward_hidden E loss i [] = []"
| "backward_hidden E loss i (l # ls) =
     backward_Linear E loss i l # backward_hidden E loss (i + 2) ls"

definition backward :: "('x, 't, 'r) env \<Rightarrow> 't \<Rightarrow> 't MLP \<Rightarrow> 't MLP" where
  "backward E loss m =
     m\<lparr>hidden_layers := backward_hidden E loss 0 (hidden_layers m),
       output_layer := backward_Linear E loss (2 * length (hidden_layers m)) (output_layer m)\<rparr>"

text \<open>\<open>self.opt.step()\<close>: every parameter that has a gradient is updated.\<close>

definition step_Parameter ::
  "('x, 't, 'r) env \<Rightarrow> real \<Rightarrow> 't Parameter \<Rightarrow> 't Parameter" where
  "step_Parameter E lr' p =
     (case grad p of None \<Rightarrow> p | Some g \<Rightarrow> p\<lparr>data := sgd_update E lr' (data p) g\<rparr>)"

definition step :: "('x, 't, 'r) env \<Rightarrow> 't MLP \<Rightarrow> 't MLP" where
  "step E m = map_parameters (step_Parameter E (lr (opt m))) m"

text \<open>
  \<open>train_on_batch\<close>. The model is mutated in place, so it is returned also when the call
  raises. \<open>loss.backward()\<close> raises when the loss was computed with gradient tracking off.
\<close>

definition train_on_batch ::
  "('x, 't, 'r) env \<Rightarrow> bool \<Rightarrow> 't MLP \<Rightarrow> 'x batch \<Rightarrow> (error + real) \<times> 't MLP" where
  "train_on_batch E ge m batch =
     (case batch of (images, labels) \<Rightarrow>
        (let m1 = zero_grad m in
         case forward E ge m1 images of
           Inl e \<Rightarrow> (Inl e, m1)
         | Inr logits \<Rightarrow>
             (let probs = F_log_softmax E ge logits in
              case F_nll_loss E ge probs labels of
                Inl e \<Rightarrow> (Inl e, m1)
              | Inr loss \<Rightarrow>
                  if \<not> ge then (Inl RuntimeError, m1)
                  else (let m2 = backward E loss m1;
                            m3 = step E m2
                        in (Inr (item E loss), m3)))))"

definition predict_on_batch ::
  "('x, 't, 'r) env \<Rightarrow> bool \<Rightarrow> 't MLP \<Rightarrow> 'x batch \<Rightarrow> error + int list" where
  "predict_on_batch E ge m batch =
     (case batch of (images, labels) \<Rightarrow>
        (case forward E ge m images of
           Inl e \<Rightarrow> Inl e
         | Inr logits \<Rightarrow> Inr (argmax E (F_log_softmax E ge logits))))"

subsection \<open>Data loaders\<close>

text \<open>
  \<open>DataLoader(dataset, shuffle=True, batch_size=batch_size)\<close>: the batch size must be a
  positive integer.
\<close>

definition DataLoader_init ::
  "('x \<times> int) list \<Rightarrow> bool \<Rightarrow> hval \<Rightarrow> error + 'x DataLoader" where
  "DataLoader_init ds sh bs =
     (case bs of
        HInt b \<Rightarrow>
          if b \<le> 0 then Inl ValueError
          else Inr \<lparr>dataset = ds, shuffle = sh, batch_size = nat b\<rparr>
      | HStr s \<Rightarrow> Inl ValueError
      | HFloat f \<Rightarrow> Inl ValueError)"

text \<open>\<open>len(loader)\<close>: the number of batches, the last one possibly smaller.\<close>

definition DataLoader_len :: "'x DataLoader \<Rightarrow> nat" where
  "DataLoader_len l = (length (dataset l) + batch_size l - 1) div batch_size l"

function chunks :: "nat \<Rightarrow> 'a list \<Rightarrow> 'a list list" where
  "chunks n xs = (if n = 0 \<or> xs = [] then [] else take n xs # chunks n (drop n xs))"
  by pat_completeness auto
termination
  by (relation "measure (\<lambda>(n, xs). length xs)") auto

declare chunks.simps [simp del]

definition collate :: "('x \<times> int) list \<Rightarrow> 'x batch" where
  "collate samples = (map fst samples, map snd samples)"

text \<open>
  One pass over a loader: the sampler draws a permutation of the indices from the random
  generator when \<open>shuffle\<close> is set, and the samples are collated in groups of
  \<open>batch_size\<close>. The indices are those that \<open>randperm\<close> returns; torch returns a
  permutation of \<open>0..<n\<close> (the predicate \<open>randperm_ok\<close> below).
\<close>

definition DataLoader_iter ::
  "('x, 't, 'r) env \<Rightarrow> 'x DataLoader \<Rightarrow> 'r \<Rightarrow> 'x batch list \<times> 'r" where
  "DataLoader_iter E l r =
     (case (if shuffle l then randperm E (length (dataset l)) r
            else ([0..<length (dataset l)], r)) of
        (idx, r') \<Rightarrow>
          (map collate (chunks (batch_size l) (map (\<lambda>i. dataset l ! i) idx)), r'))"

definition randperm_ok :: "('x, 't, 'r) env \<Rightarrow> bool" where
  "randperm_ok E = (\<forall>n r. set (fst (randperm E n r)) = {0..<n}
                        \<and> length (fst (randperm E n r)) = n)"

definition get_loader ::
  "('x, 't, 'r) env \<Rightarrow> hval \<Rightarrow> string \<Rightarrow> string \<Rightarrow> hval \<Rightarrow> error + 'x DataLoader option" where
  "get_loader E dataset_name datadir split batch_size' =
     (if dataset_name = HStr ''mnist'' then
        (let train = (if split = ''train'' then True else False) in
         case MNIST E datadir train of
           Inl e \<Rightarrow> Inl e
         | Inr dataset' \<Rightarrow>
             (case DataLoader_init dataset' True batch_size' of
                Inl e \<Rightarrow> Inl e
              | Inr loader \<Rightarrow> Inr (Some loader)))
      else Inr None)"

definition get_model ::
  "('x, 't, 'r) env \<Rightarrow> hval \<Rightarrow> 'r \<Rightarrow> (error + 't MLP option) \<times> 'r" where
  "get_model E model_name r =
     (if model_name = HStr ''mlp'' then
        (case MLP_init E 784 10 r of (m, r') \<Rightarrow> (Inr (Some m), r'))
      else (Inr None, r))"

subsection \<open>MLP: one pass over a loader\<close>

definition print :: "line list \<Rightarrow> ('t, 'r) world \<Rightarrow> ('t, 'r) world" where
  "print ls w = w\<lparr>stdout := stdout w @ ls\<rparr>"

text \<open>
  The loop of \<open>train_on_loader\<close>: \<open>i\<close> is the index that \<open>enumerate\<close> gives,
  \<open>i % (n_batches//10)\<close> raises when \<open>n_batches//10\<close> is zero.
\<close>

fun train_batches ::
  "('x, 't, 'r) env \<Rightarrow> bool \<Rightarrow> nat \<Rightarrow> nat \<Rightarrow> 'x batch list \<Rightarrow> 't MLP \<Rightarrow> real \<Rightarrow> line list
     \<Rightarrow> (error + real) \<times> 't MLP \<times> line list" where
  "train_batches E ge n_batches i [] m loss_sum out = (Inr loss_sum, m, out)"
| "train_batches E ge n_batches i (batch # rest) m loss_sum out =
     (case train_on_batch E ge m batch of
        (Inl e, m') \<Rightarrow> (Inl e, m', out)
      | (Inr l, m') \<Rightarrow>
          (let loss_sum' = loss_sum + l in
           if n_batches div 10 = 0 then (Inl ZeroDivisionError, m', out)
           else if i mod (n_batches div 10) = 0
           then train_batches E ge n_batches (Suc i) rest m' loss_sum'
                  (out @ [TrainProgress i (loss_sum' / real (i + 1))])
           else train_batches E ge n_batches (Suc i) rest m' loss_sum' out))"

definition train_on_loader ::
  "('x, 't, 'r) env \<Rightarrow> 'x DataLoader option \<Rightarrow> 't MLP \<Rightarrow> ('t, 'r) world
     \<Rightarrow> (error + real) \<times> 't MLP \<times> ('t, 'r) world" where
  "train_on_loader E train_loader m w =
     (let m1 = m\<lparr>training := True\<rparr> in
      case train_loader of
        None \<Rightarrow> (Inl TypeError, m1, w)
      | Some l \<Rightarrow>
          (let n_batches = DataLoader_len l in
           case DataLoader_iter E l (rng w) of
             (batches, r') \<Rightarrow>
               (case train_batches E (grad_enabled w) n_batches 0 batches m1 0 (stdout w) of
                  (Inl e, m2, out) \<Rightarrow> (Inl e, m2, w\<lparr>rng := r', stdout := out\<rparr>)
                | (Inr loss_sum, m2, out) \<Rightarrow>
                    if n_batches = 0
                    then (Inl ZeroDivisionError, m2, w\<lparr>rng := r', stdout := out\<rparr>)
                    else (Inr (loss_sum / real n_batches), m2,
                          w\<lparr>rng := r', stdout := out\<rparr>))))"

text \<open>
  \<open>(pred_labels.cpu() == gt_labels).sum()\<close> on two one-dimensional tensors: elementwise
  when the sizes agree, broadcast when one of them has a single element, an error otherwise.
\<close>

definition eq_sum :: "int list \<Rightarrow> int list \<Rightarrow> error + nat" where
  "eq_sum pred gt =
     (if length pred = length gt then Inr (length (filter (\<lambda>(p, g). p = g) (zip pred gt)))
      else if length pred = 1 then Inr (length (filter (\<lambda>g. hd pred = g) gt))
      else if length gt = 1 then Inr (length (filter (\<lambda>p. p = hd gt) pred))
      else Inl RuntimeError)"

fun val_batches ::
  "('x, 't, 'r) env \<Rightarrow> bool \<Rightarrow> nat \<Rightarrow> nat \<Rightarrow> 'x batch list \<Rightarrow> 't MLP \<Rightarrow> real \<Rightarrow> nat \<Rightarrow> line list
     \<Rightarrow> (error + real \<times> nat) \<times> line list" where
  "val_batches E ge n_batches i [] m se n_samples out = (Inr (se, n_samples), out)"
| "val_batches E ge n_batches i (batch # rest) m se n_samples out =
     (let gt_labels = snd batch in
      case predict_on_batch E ge m batch of
        Inl e \<Rightarrow> (Inl e, out)
      | Inr pred_labels \<Rightarrow>
          (case eq_sum pred_labels gt_labels of
             Inl e \<Rightarrow> (Inl e, out)
           | Inr c \<Rightarrow>
               (let se' = se + real c;
                    n_samples' = n_samples + length gt_labels
                in if n_batches div 10 = 0 then (Inl ZeroDivisionError, out)
                   else if i mod (n_batches div 10) = 0
                   then (if n_samples' = 0 then (Inl ZeroDivisionError, out)
                         else val_batches E ge n_batches (Suc i) rest m se' n_samples'
                                (out @ [ValProgress i (se' / real n_samples')]))
                   else val_batches E ge n_batches (Suc i) rest m se' n_samples' out)))"

text \<open>The body of \<open>val_on_loader\<close>, run under \<open>torch.no_grad()\<close> below.\<close>

definition val_on_loader_body ::
  "('x, 't, 'r) env \<Rightarrow> 'x DataLoader option \<Rightarrow> 't MLP \<Rightarrow> ('t, 'r) world
     \<Rightarrow> (error + real) \<times> 't MLP \<times> ('t, 'r) world" where
  "val_on_loader_body E val_loader m w =
     (let m1 = m\<lparr>training := False\<rparr> in
      case val_loader of
        None \<Rightarrow> (Inl TypeError, m1, w)
      | Some l \<Rightarrow>
          (let n_batches = DataLoader_len l in
           case DataLoader_iter E l (rng w) of
             (batches, r') \<Rightarrow>
               (case val_batches E (grad_enabled w) n_batches 0 batches m1 0 0 (stdout w) of
                  (Inl e, out) \<Rightarrow> (Inl e, m1, w\<lparr>rng := r', stdout := out\<rparr>)
                | (Inr (se, n_samples), out) \<Rightarrow>
                    if n_samples = 0
                    then (Inl ZeroDivisionError, m1, w\<lparr>rng := r', stdout := out\<rparr>)
                    else (Inr (se / real n_samples), m1,
                          w\<lparr>rng := r', stdout := out\<rparr>))))"

text \<open>
  The decorator \<open>@torch.no_grad()\<close>: gradient tracking is off during the call and is
  restored afterwards, also when the call raises.
\<close>

definition val_on_loader ::
  "('x, 't, 'r) env \<Rightarrow> 'x DataLoader option \<Rightarrow> 't MLP \<Rightarrow> ('t, 'r) world
     \<Rightarrow> (error + real) \<times> 't MLP \<times> ('t, 'r) world" where
  "val_on_loader E val_loader m w =
     (case val_on_loader_body E val_loader m (w\<lparr>grad_enabled := False\<rparr>) of
        (res, m', w') \<Rightarrow> (res, m', w'\<lparr>grad_enabled := grad_enabled w\<rparr>))"

subsection \<open>Files and the helpers of the haven library\<close>

text \<open>\<open>os.path.join\<close> of two components.\<close>

definition path_join :: "string \<Rightarrow> string \<Rightarrow> string" where
  "path_join a b =
     (if b \<noteq> [] \<and> hd b = CHR ''/'' then b
      else if a = [] \<or> last a = CHR ''/'' then a @ b
      else a @ ''/'' @ b)"

definition write_file ::
  "string \<Rightarrow> 't file_content \<Rightarrow> ('t, 'r) world \<Rightarrow> ('t, 'r) world" where
  "write_file p c w = w\<lparr>files := (p, c) # filter (\<lambda>e. fst e \<noteq> p) (files w)\<rparr>"

text \<open>\<open>os.path.exists\<close>, for the path of a file.\<close>

definition path_exists :: "string \<Rightarrow> ('t, 'r) world \<Rightarrow> bool" where
  "path_exists p w = (map_of (files w) p \<noteq> None)"

text \<open>
  Modelled from the spec: the functions \<open>save_json\<close>, \<open>torch_save\<close>, \<open>save_pkl\<close>,
  \<open>torch_load\<close> and \<open>load_pkl\<close> of haven_utils are not in src/. The spec describes them
  as load and save of the configuration mapping, of the opaque model-state blob and of the
  score-history sequence, where a missing or corrupt file fails with a deserialization
  error.
\<close>

definition save_json :: "string \<Rightarrow> exp_dict \<Rightarrow> ('t, 'r) world \<Rightarrow> ('t, 'r) world" where
  "save_json p d w = write_file p (Json d) w"

definition torch_save :: "string \<Rightarrow> 't state_dict \<Rightarrow> ('t, 'r) world \<Rightarrow> ('t, 'r) world" where
  "torch_save p sd w = write_file p (Pth sd) w"

definition save_pkl :: "string \<Rightarrow> score_dict list \<Rightarrow> ('t, 'r) world \<Rightarrow> ('t, 'r) world" where
  "save_pkl p sl w = write_file p (Pkl sl) w"

definition torch_load :: "string \<Rightarrow> ('t, 'r) world \<Rightarrow> error + 't state_dict" where
  "torch_load p w =
     (case map_of (files w) p of Some (Pth sd) \<Rightarrow> Inr sd | _ \<Rightarrow> Inl DeserializationError)"

definition load_pkl :: "string \<Rightarrow> ('t, 'r) world \<Rightarrow> error + score_dict list" where
  "load_pkl p w =
     (case map_of (files w) p of Some (Pkl sl) \<Rightarrow> Inr sl | _ \<Rightarrow> Inl DeserializationError)"

text \<open>The path \<open>p\<close> lies in the directory \<open>d\<close>.\<close>

definition is_under :: "string \<Rightarrow> string \<Rightarrow> bool" where
  "is_under d p =
     (let d' = (if d = [] \<or> last d = CHR ''/'' then d else d @ ''/'')
      in take (length d') p = d' \<and> length d' < length p)"

text \<open>
  Modelled from the spec: \<open>delete_experiment\<close> of haven_chk is not in src/. The spec says
  that reset deletes and backs up an existing checkpoint directory, and that the prior
  contents are preserved only in a backup location, not in the active directory. The
  backup location of a file is \<open>backup_path\<close>, a parameter.
\<close>

definition delete_experiment ::
  "('x, 't, 'r) env \<Rightarrow> string \<Rightarrow> ('t, 'r) world \<Rightarrow> ('t, 'r) world" where
  "delete_experiment E savedir w =
     w\<lparr>files :=
         filter (\<lambda>e. \<not> is_under savedir (fst e))
           (map (\<lambda>e. (backup_path E (fst e), snd e))
              (filter (\<lambda>e. is_under savedir (fst e)) (files w))
            @ files w)\<rparr>"

subsection \<open>trainval\<close>

text \<open>
  example.py calls \<open>datasets.get_loader\<close> and \<open>models.get_model\<close>, and binds neither
  \<open>datasets\<close> nor \<open>models\<close>: what the two names are bound to when \<open>trainval\<close> runs is a
  parameter, and an unbound name raises NameError. \<open>file_globals\<close> binds them to the
  functions \<open>get_loader\<close> and \<open>get_model\<close> of the file itself.
\<close>

record ('x, 't, 'r) module_globals =
  datasets_get_loader ::
    "(hval \<Rightarrow> string \<Rightarrow> string \<Rightarrow> hval \<Rightarrow> error + 'x DataLoader option) option"
  models_get_model :: "(hval \<Rightarrow> 'r \<Rightarrow> (error + 't MLP option) \<times> 'r) option"

definition file_globals :: "('x, 't, 'r) env \<Rightarrow> ('x, 't, 'r) module_globals" where
  "file_globals E =
     \<lparr>datasets_get_loader = Some (get_loader E), models_get_model = Some (get_model E)\<rparr>"

text \<open>Lines 40 to 46: the two loaders.\<close>

definition load_datasets ::
  "('x, 't, 'r) module_globals \<Rightarrow> exp_dict \<Rightarrow> string
     \<Rightarrow> error + ('x DataLoader option \<times> 'x DataLoader option)" where
  "load_datasets G exp_dict savedir_base =
     (case datasets_get_loader G of
        None \<Rightarrow> Inl (NameError ''datasets'')
      | Some get_loader' \<Rightarrow>
          (case getitem exp_dict ''dataset'' of
             Inl e \<Rightarrow> Inl e
           | Inr dataset_name \<Rightarrow>
               (case getitem exp_dict ''batch_size'' of
                  Inl e \<Rightarrow> Inl e
                | Inr batch_size' \<Rightarrow>
                    (case get_loader' dataset_name savedir_base ''train'' batch_size' of
                       Inl e \<Rightarrow> Inl e
                     | Inr train_loader \<Rightarrow>
                         (case get_loader' dataset_name savedir_base ''val'' batch_size' of
                            Inl e \<Rightarrow> Inl e
                          | Inr val_loader \<Rightarrow> Inr (train_loader, val_loader))))))"

text \<open>Line 50: the model.\<close>

definition load_model ::
  "('x, 't, 'r) module_globals \<Rightarrow> exp_dict \<Rightarrow> 'r \<Rightarrow> (error + 't MLP option) \<times> 'r" where
  "load_model G exp_dict r =
     (case models_get_model G of
        None \<Rightarrow> (Inl (NameError ''models''), r)
      | Some get_model' \<Rightarrow>
          (case getitem exp_dict ''model'' of
             Inl e \<Rightarrow> (Inl e, r)
           | Inr model_name \<Rightarrow> get_model' model_name r))"

text \<open>
  Lines 57 to 65: resume from the checkpoint when the score file exists, restart otherwise.
  The result is the model, the score list and the first epoch to run.
\<close>

definition resume ::
  "('x, 't, 'r) env \<Rightarrow> 't MLP option \<Rightarrow> string \<Rightarrow> string \<Rightarrow> ('t, 'r) world
     \<Rightarrow> error + ('t MLP option \<times> score_dict list \<times> int)" where
  "resume E model model_path score_list_path w =
     (if path_exists score_list_path w then
        (case model of
           None \<Rightarrow> Inl AttributeError
         | Some m \<Rightarrow>
             (case torch_load model_path w of
                Inl e \<Rightarrow> Inl e
              | Inr sd \<Rightarrow>
                  (case set_state_dict E m sd of
                     Inl e \<Rightarrow> Inl e
                   | Inr m' \<Rightarrow>
                       (case load_pkl score_list_path w of
                          Inl e \<Rightarrow> Inl e
                        | Inr score_list \<Rightarrow>
                            if score_list = [] then Inl IndexError
                            else Inr (Some m', score_list, epoch (last score_list) + 1)))))
      else Inr (model, [], 0))"

text \<open>\<open>range(a, b)\<close> and \<open>score_df.tail()\<close> (the last five rows).\<close>

definition py_range :: "int \<Rightarrow> int \<Rightarrow> int list" where
  "py_range a b = [a..b - 1]"

definition tail :: "'a list \<Rightarrow> 'a list" where
  "tail xs = drop (length xs - 5) xs"

text \<open>Lines 72 to 93: the body of the loop, one epoch.\<close>

definition run_epoch ::
  "('x, 't, 'r) env \<Rightarrow> 'x DataLoader option \<Rightarrow> 'x DataLoader option \<Rightarrow> string \<Rightarrow> string
     \<Rightarrow> string \<Rightarrow> int \<Rightarrow> 't MLP \<Rightarrow> score_dict list \<Rightarrow> ('t, 'r) world
     \<Rightarrow> (error + 't MLP \<times> score_dict list) \<times> ('t, 'r) world" where
  "run_epoch E train_loader val_loader savedir model_path score_list_path e m score_list w =
     (case train_on_loader E train_loader m w of
        (Inl err, m1, w1) \<Rightarrow> (Inl err, w1)
      | (Inr train_loss', m1, w1) \<Rightarrow>
          (case val_on_loader E val_loader m1 w1 of
             (Inl err, m2, w2) \<Rightarrow> (Inl err, w2)
           | (Inr val_acc', m2, w2) \<Rightarrow>
               (let score_dict = \<lparr>train_loss = train_loss', val_acc = val_acc', epoch = e\<rparr>;
                    score_list' = score_list @ [score_dict];
                    w3 = print [ScoreTail (tail score_list')] w2;
                    w4 = torch_save model_path (get_state_dict m2) w3;
                    w5 = save_pkl score_list_path score_list' w4;
                    w6 = print [CheckpointSaved savedir] w5
                in (Inr (m2, score_list'), w6))))"

text \<open>
  Line 71: the loop over the epochs that are left. A model that is \<open>None\<close> has no
  method \<open>train_on_loader\<close>.
\<close>

fun epochs ::
  "('x, 't, 'r) env \<Rightarrow> 'x DataLoader option \<Rightarrow> 'x DataLoader option \<Rightarrow> string \<Rightarrow> string
     \<Rightarrow> string \<Rightarrow> int list \<Rightarrow> 't MLP option \<Rightarrow> score_dict list \<Rightarrow> ('t, 'r) world
     \<Rightarrow> (error + unit) \<times> ('t, 'r) world" where
  "epochs E train_loader val_loader savedir model_path score_list_path [] model score_list w =
     (Inr (), w)"
| "epochs E train_loader val_loader savedir model_path score_list_path (e # es) model
     score_list w =
     (case model of
        None \<Rightarrow> (Inl AttributeError, w)
      | Some m \<Rightarrow>
          (case run_epoch E train_loader val_loader savedir model_path score_list_path e m
                  score_list w of
             (Inl err, w') \<Rightarrow> (Inl err, w')
           | (Inr (m', score_list'), w') \<Rightarrow>
               epochs E train_loader val_loader savedir model_path score_list_path es
                 (Some m') score_list' w'))"

text \<open>Lines 23 to 35: the experiment directory, reset, and the saved configuration.\<close>

definition bookkeeping ::
  "('x, 't, 'r) env \<Rightarrow> exp_dict \<Rightarrow> string \<Rightarrow> bool \<Rightarrow> ('t, 'r) world
     \<Rightarrow> string \<times> ('t, 'r) world" where
  "bookkeeping E exp_dict savedir_base reset w =
     (let exp_id = hash_dict E exp_dict;
          savedir = path_join savedir_base exp_id;
          w1 = (if reset then delete_experiment E savedir w else w);
          w2 = save_json (path_join savedir ''exp_dict.json'') exp_dict w1;
          w3 = print [PPrint exp_dict, ExperimentSaved savedir] w2
      in (savedir, w3))"

text \<open>Lines 52 to 95: the checkpoint and the loop.\<close>

definition checkpoint_and_loop ::
  "('x, 't, 'r) env \<Rightarrow> exp_dict \<Rightarrow> 'x DataLoader option \<Rightarrow> 'x DataLoader option \<Rightarrow> string
     \<Rightarrow> 't MLP option \<Rightarrow> ('t, 'r) world \<Rightarrow> (error + unit) \<times> ('t, 'r) world" where
  "checkpoint_and_loop E exp_dict train_loader val_loader savedir model w =
     (let model_path = path_join savedir ''model.pth'';
          score_list_path = path_join savedir ''score_list.pkl''
      in case resume E model model_path score_list_path w of
           Inl e \<Rightarrow> (Inl e, w)
         | Inr (model', score_list, s_epoch) \<Rightarrow>
             (let w5 = print [StartingAt s_epoch] w in
              case getitem exp_dict ''max_epoch'' of
                Inl e \<Rightarrow> (Inl e, w5)
              | Inr (HInt max_epoch) \<Rightarrow>
                  (case epochs E train_loader val_loader savedir model_path
                          score_list_path (py_range s_epoch max_epoch)
                          model' score_list w5 of
                     (Inl e, w6) \<Rightarrow> (Inl e, w6)
                   | (Inr u, w6) \<Rightarrow> (Inr (), print [ExperimentCompleted] w6))
              | Inr _ \<Rightarrow> (Inl TypeError, w5)))"

definition trainval ::
  "('x, 't, 'r) env \<Rightarrow> ('x, 't, 'r) module_globals \<Rightarrow> exp_dict \<Rightarrow> string \<Rightarrow> bool
     \<Rightarrow> ('t, 'r) world \<Rightarrow> (error + unit) \<times> ('t, 'r) world" where
  "trainval E G exp_dict savedir_base reset w =
     (case bookkeeping E exp_dict savedir_base reset w of
        (savedir, w3) \<Rightarrow>
          (case load_datasets G exp_dict savedir_base of
             Inl e \<Rightarrow> (Inl e, w3)
           | Inr (train_loader, val_loader) \<Rightarrow>
               (case load_model G exp_dict (rng w3) of
                  (Inl e, r) \<Rightarrow> (Inl e, w3\<lparr>rng := r\<rparr>)
                | (Inr model, r) \<Rightarrow>
                    checkpoint_and_loop E exp_dict train_loader val_loader savedir model
                      (w3\<lparr>rng := r\<rparr>))))"

subsection \<open>A small framework instance\<close>

text \<open>
  An instance of the consumed interfaces on which the definitions can be evaluated: a
  tensor is a shape with one integer of payload, a sample is an integer, the random
  generator is a counter, and the data set has ten samples in either split.
\<close>

definition env0 :: "(int, nat list \<times> int, nat) env" where
  "env0 =
     \<lparr>hash_dict = (\<lambda>d. if map_of d ''lr'' = Some (HFloat (1 / 1000)) then ''a'' else ''b''),
      backup_path = (\<lambda>p. ''deleted/'' @ p),
      MNIST = (\<lambda>datadir train. Inr (map (\<lambda>i. (int i, int i mod 3)) [0..<10])),
      randperm = (\<lambda>n r. (rev [0..<n], Suc r)),
      nn_Linear = (\<lambda>n_in n_out r. ((([n_out, n_in], int r), ([n_out], 1)), Suc r)),
      shape = fst,
      view = (\<lambda>ge x n. Inr ([length x, n], sum_list x)),
      F_linear = (\<lambda>ge x w b. Inr ([hd (fst x), hd (fst w)], snd x * snd w + snd b)),
      F_relu = (\<lambda>ge t. (fst t, max 0 (snd t))),
      F_log_softmax = (\<lambda>ge t. t),
      F_nll_loss = (\<lambda>ge t labels. Inr ([], snd t - sum_list labels)),
      argmax = (\<lambda>t. replicate (hd (fst t)) (snd t mod 3)),
      item = (\<lambda>t. real_of_int (snd t)),
      grad_of = (\<lambda>loss i. ([], snd loss + int i)),
      tensor_add = (\<lambda>a b. (fst a, snd a + snd b)),
      sgd_update = (\<lambda>lr' p g. (fst p, snd p - snd g))\<rparr>"

definition world0 :: "(nat list \<times> int, nat) world" where
  "world0 = \<lparr>files = [], rng = 0, grad_enabled = True, stdout = []\<rparr>"

definition cfg0 :: exp_dict where
  "cfg0 =
     [(''dataset'', HStr ''mnist''), (''model'', HStr ''mlp''), (''max_epoch'', HInt 2),
      (''lr'', HFloat (1 / 1000)), (''batch_size'', HInt 1)]"

subsection \<open>Predicates of the statements\<close>

text \<open>
  Two model objects have the same architecture: the same input size, as many hidden
  layers, parameter tensors of the same shapes, and optimizers over as many parameters.
\<close>

definition same_architecture :: "('x, 't, 'r) env \<Rightarrow> 't MLP \<Rightarrow> 't MLP \<Rightarrow> bool" where
  "same_architecture E m m' =
     (input_size m' = input_size m
      \<and> length (hidden_layers m') = length (hidden_layers m)
      \<and> map (\<lambda>e. shape E (snd e)) (model_state_dict m')
          = map (\<lambda>e. shape E (snd e)) (model_state_dict m)
      \<and> n_params (opt m') = n_params (opt m))"


definition m_trained :: "(nat list \<times> int) MLP" where
  "m_trained =
     snd (train_on_batch env0 True (fst (MLP_init env0 784 10 0)) ([1, 2], [0, 1]))"

text \<open>
  The losses that \<open>train_on_batch\<close> returns when it is called on the batches in turn,
  each call on the model that the call before left, and the model after the last call.
\<close>

fun per_batch_losses ::
  "('x, 't, 'r) env \<Rightarrow> bool \<Rightarrow> 't MLP \<Rightarrow> 'x batch list \<Rightarrow> error + (real list \<times> 't MLP)" where
  "per_batch_losses E ge m [] = Inr ([], m)"
| "per_batch_losses E ge m (b # bs) =
     (case train_on_batch E ge m b of
        (Inl e, m') \<Rightarrow> Inl e
      | (Inr l, m') \<Rightarrow>
          (case per_batch_losses E ge m' bs of
             Inl e \<Rightarrow> Inl e
           | Inr (ls, m'') \<Rightarrow> Inr (l # ls, m'')))"

text \<open>
  The prediction for a batch succeeds and has one label for each sample; the number of
  predicted labels that equal the ground-truth label at their position; the indices at
  which a pass over \<open>k\<close> batches of a loader of \<open>n\<close> batches prints a progress line.
\<close>

definition pred_ok :: "('x, 't, 'r) env \<Rightarrow> 't MLP \<Rightarrow> 'x batch \<Rightarrow> bool" where
  "pred_ok E m b =
     (case predict_on_batch E False m b of
        Inl e \<Rightarrow> False
      | Inr p \<Rightarrow> length p = length (snd b))"

definition n_matching :: "('x, 't, 'r) env \<Rightarrow> 't MLP \<Rightarrow> 'x batch \<Rightarrow> nat" where
  "n_matching E m b =
     (case predict_on_batch E False m b of
        Inl e \<Rightarrow> 0
      | Inr p \<Rightarrow> length (filter (\<lambda>(p, g). p = g) (zip p (snd b))))"

definition progress_indices :: "nat \<Rightarrow> nat \<Rightarrow> nat list" where
  "progress_indices n k = filter (\<lambda>j. j mod (n div 10) = 0) [0..<k]"

text \<open>One training step on a batch returns a loss.\<close>

definition train_step_ok :: "('x, 't, 'r) env \<Rightarrow> bool \<Rightarrow> 't MLP \<Rightarrow> 'x batch \<Rightarrow> bool" where
  "train_step_ok E ge m b =
     (case fst (train_on_batch E ge m b) of Inl e \<Rightarrow> False | Inr l \<Rightarrow> True)"


text \<open>Two loaders over ten samples, of five and of ten batches, and a fresh model.\<close>

definition loader_small :: "int DataLoader" where
  "loader_small =
     \<lparr>dataset = map (\<lambda>i. (int i, int i mod 3)) [0..<10], shuffle = True, batch_size = 2\<rparr>"

definition loader_ten :: "int DataLoader" where
  "loader_ten =
     \<lparr>dataset = map (\<lambda>i. (int i, int i mod 3)) [0..<10], shuffle = True, batch_size = 1\<rparr>"

definition m0 :: "(nat list \<times> int) MLP" where
  "m0 = fst (MLP_init env0 784 10 0)"

definition losses_ten :: "real list" where
  "losses_ten = [2, - 6, 29, - 33, 40, - 47, 218, - 225, 257, - 261]"

definition m_ten :: "(nat list \<times> int) MLP" where
  "m_ten = fst (snd (train_on_loader env0 (Some loader_ten) m0 world0))"

text \<open>The prefix that \<open>os.path.join\<close> puts before a relative component.\<close>

definition dir_prefix :: "string \<Rightarrow> string" where
  "dir_prefix d = (if d = [] \<or> last d = CHR ''/'' then d else d @ ''/'')"

text \<open>The score history that is persisted at a path: empty when there is none.\<close>

definition persisted_scores :: "string \<Rightarrow> ('t, 'r) world \<Rightarrow> score_dict list" where
  "persisted_scores p w = (case map_of (files w) p of Some (Pkl sl) \<Rightarrow> sl | _ \<Rightarrow> [])"

text \<open>The lines that an epoch prints.\<close>

fun is_epoch_line :: "line \<Rightarrow> bool" where
  "is_epoch_line (TrainProgress i v) = True"
| "is_epoch_line (ValProgress i v) = True"
| "is_epoch_line (ScoreTail sl) = True"
| "is_epoch_line (CheckpointSaved d) = True"
| "is_epoch_line l = False"

text \<open>The world after a run of \<open>cfg0\<close> to completion, from nothing.\<close>

definition world_done :: "(nat list \<times> int, nat) world" where
  "world_done = snd (trainval env0 (file_globals env0) cfg0 ''base'' False world0)"

definition scores_done :: "score_dict list" where
  "scores_done =
     [\<lparr>train_loss = - (13 / 5), val_acc = 3 / 10, epoch = 0\<rparr>,
      \<lparr>train_loss = - 3, val_acc = 0, epoch = 1\<rparr>]"

text \<open>
  A checkpoint directory left by an earlier, interrupted run of \<open>cfg0\<close>: one score record
  and the model state of that run.
\<close>

definition world_old :: "(nat list \<times> int, nat) world" where
  "world_old =
     \<lparr>files =
        [(''base/a/score_list.pkl'', Pkl [\<lparr>train_loss = 1, val_acc = 1 / 2, epoch = 0\<rparr>]),
         (''base/a/model.pth'', Pth (get_state_dict m_trained)),
         (''base/a/exp_dict.json'', Json cfg0)],
      rng = 0, grad_enabled = True, stdout = []\<rparr>"

text \<open>
  The model that \<open>set_state_dict\<close> gives from the state saved in \<open>world_old\<close>; a state
  dictionary without the keys of the model, and a directory that holds it.
\<close>

definition m_resumed :: "(nat list \<times> int) MLP" where
  "m_resumed =
     (case set_state_dict env0 m0 (get_state_dict m_trained) of
        Inr m' \<Rightarrow> m'
      | Inl e \<Rightarrow> m0)"

definition sd_bad :: "(nat list \<times> int) state_dict" where
  "sd_bad = \<lparr>sd_model = [], sd_opt = \<lparr>lr = 1 / 1000, n_params = 4\<rparr>\<rparr>"

definition world_bad :: "(nat list \<times> int, nat) world" where
  "world_bad =
     \<lparr>files =
        [(''base/a/score_list.pkl'', Pkl [\<lparr>train_loss = 1, val_acc = 1 / 2, epoch = 0\<rparr>]),
         (''base/a/model.pth'', Pth sd_bad)],
      rng = 0, grad_enabled = True, stdout = []\<rparr>"

text \<open>
  Two worlds hold the same checkpoint, one in the directory \<open>da\<close> and the other in the
  directory \<open>db\<close>, and agree on the random generator and the gradient mode.
\<close>

definition same_checkpoint ::
  "string \<Rightarrow> string \<Rightarrow> ('t, 'r) world \<Rightarrow> ('t, 'r) world \<Rightarrow> bool" where
  "same_checkpoint da db wa wb =
     (rng wa = rng wb \<and> grad_enabled wa = grad_enabled wb
      \<and> map_of (files wa) (path_join da ''model.pth'')
          = map_of (files wb) (path_join db ''model.pth'')
      \<and> map_of (files wa) (path_join da ''score_list.pkl'')
          = map_of (files wb) (path_join db ''score_list.pkl''))"

text \<open>A configuration without its \<open>'lr'\<close> entry, and \<open>cfg0\<close> with another learning rate.\<close>

definition without_lr :: "exp_dict \<Rightarrow> exp_dict" where
  "without_lr d = filter (\<lambda>e. fst e \<noteq> ''lr'') d"

definition cfg_lr :: exp_dict where
  "cfg_lr =
     [(''dataset'', HStr ''mnist''), (''model'', HStr ''mlp''), (''max_epoch'', HInt 2),
      (''lr'', HFloat (1 / 10000)), (''batch_size'', HInt 1)]"

section \<open>Properties\<close>

subsection \<open>Basic facts\<close>

lemma string_of_nat_0: "string_of_nat 0 = ''0''"
  by (simp add: string_of_nat.simps string_of_digit_def)

subsection \<open>State round trip and prediction\<close>

text \<open>
  Claim C8. Saving the state of a model \<open>m\<close> with \<open>get_state_dict\<close> and loading it with
  \<open>set_state_dict\<close> into a freshly constructed instance succeeds and gives a model whose
  \<open>predict_on_batch\<close> agrees with that of \<open>m\<close> on every batch. The fresh instance is
  constructed by \<open>MLP.__init__\<close>, and \<open>m\<close> is an instance of the same architecture,
  whatever the values of its parameters, gradients and learning rate.
\<close>

theorem state_dict_round_trip_predict:
  assumes f: "fresh = fst (MLP_init E isz ncls r)" and a: "same_architecture E m fresh"
  shows "\<exists>m'. set_state_dict E fresh (get_state_dict m) = Inr m'
           \<and> predict_on_batch E ge m' batch = predict_on_batch E ge m batch"
proof -
  obtain h where h: "hidden_layers m = [h]"
    using a f by (cases "hidden_layers m")
      (auto simp: same_architecture_def MLP_init_def new_Linear_def Let_def split: prod.splits)
  show ?thesis
    using a f h
    by (cases batch)
      (auto simp: same_architecture_def MLP_init_def new_Linear_def Let_def
        set_state_dict_def load_state_dict_def get_state_dict_def model_state_dict_def
        linear_state_def hidden_prefix_def string_of_nat_0 opt_load_state_dict_def
        load_Linear_def predict_on_batch_def forward_def call_Linear_def parameters_def
        split: prod.splits sum.splits)
qed

text \<open>
  Claim C10. \<open>predict_on_batch\<close> gives the same result on two batches that have the same
  images, whatever their labels.
\<close>

theorem predict_on_batch_ignores_labels:
  "predict_on_batch E ge m (images, labels1) = predict_on_batch E ge m (images, labels2)"
  by (simp add: predict_on_batch_def)

theorem state_dict_round_trip_predict_witness:
  "same_architecture env0 m_trained (fst (MLP_init env0 784 10 7))
   \<and> (\<exists>m'. set_state_dict env0 (fst (MLP_init env0 784 10 7)) (get_state_dict m_trained)
             = Inr m'
           \<and> predict_on_batch env0 False m' ([3, 4], [0, 0])
             = predict_on_batch env0 False m_trained ([3, 4], [0, 0]))"
proof -
  have h: "same_architecture env0 m_trained (fst (MLP_init env0 784 10 7))"
    by code_simp
  show ?thesis
    using h state_dict_round_trip_predict [OF refl h] by simp
qed

subsection \<open>Unsupported names\<close>





lemma files_print [simp]: "files (print ls w) = files w"
  by (simp add: print_def)








subsection \<open>Batches of a loader\<close>

lemma chunks_stop: "n = 0 \<or> xs = [] \<Longrightarrow> chunks n xs = []"
  by (subst chunks.simps) simp

lemma chunks_step:
  "0 < n \<Longrightarrow> xs \<noteq> [] \<Longrightarrow> chunks n xs = take n xs # chunks n (drop n xs)"
  by (subst chunks.simps) simp

lemma length_chunks: "length (chunks n xs) = (length xs + n - 1) div n"
proof (induction n xs rule: chunks.induct)
  case (1 n xs)
  show ?case
  proof (cases "n = 0 \<or> xs = []")
    case True
    then show ?thesis by (cases "n = 0") (auto simp: chunks_stop)
  next
    case False
    then have n: "0 < n" and x: "0 < length xs" by auto
    have "length (chunks n xs) = Suc ((length xs - n + n - 1) div n)"
      using 1 False by (simp add: chunks_step)
    also have "\<dots> = (length xs + n - 1) div n"
    proof (cases "n \<le> length xs")
      case True
      then have "length xs + n - 1 = (length xs - n + n - 1) + n" using n by simp
      then show ?thesis using n by (simp only: div_add_self2)
    next
      case False
      then have a: "(length xs - n + n - 1) div n = 0"
        using n by simp
      have "n * 1 \<le> length xs + n - 1" "length xs + n - 1 < n * Suc 1"
        using False n x by arith+
      then have "(length xs + n - 1) div n = 1"
        by (rule div_nat_eqI)
      then show ?thesis using a by simp
    qed
    finally show ?thesis .
  qed
qed

lemma chunks_nonempty: "c \<in> set (chunks n xs) \<Longrightarrow> c \<noteq> []"
proof (induction n xs rule: chunks.induct)
  case (1 n xs)
  show ?case
  proof (cases "n = 0 \<or> xs = []")
    case True
    then show ?thesis using 1(2) by (auto simp: chunks_stop)
  next
    case False
    then show ?thesis using 1 by (auto simp: chunks_step)
  qed
qed

lemma length_iter:
  "randperm_ok E \<Longrightarrow> length (fst (DataLoader_iter E l r)) = DataLoader_len l"
  by (auto simp: DataLoader_iter_def DataLoader_len_def randperm_ok_def length_chunks
        split: prod.splits) (metis fst_conv)

lemma iter_labels_nonempty:
  "b \<in> set (fst (DataLoader_iter E l r)) \<Longrightarrow> snd b \<noteq> []"
  by (auto simp: DataLoader_iter_def collate_def split: prod.splits if_splits
        dest: chunks_nonempty)

subsection \<open>One pass over a loader\<close>

lemma upt_0_Suc: "[0..<Suc k] = 0 # map Suc [0..<k]"
  by (simp add: upt_conv_Cons map_Suc_upt del: upt_Suc)

lemma train_batches_ok:
  assumes n: "n div 10 \<noteq> 0"
  shows "per_batch_losses E ge m bs = Inr (ls, m') \<Longrightarrow>
     train_batches E ge n i bs m s out =
       (Inr (s + sum_list ls), m',
        out @ map (\<lambda>j. TrainProgress (i + j)
                          ((s + sum_list (take (Suc j) ls)) / real (Suc (i + j))))
                  (filter (\<lambda>j. (i + j) mod (n div 10) = 0) [0..<length bs]))"
proof (induction bs arbitrary: i m s out ls)
  case Nil
  then show ?case by simp
next
  case (Cons b bs)
  obtain r m1 where tb: "train_on_batch E ge m b = (r, m1)"
    by (cases "train_on_batch E ge m b")
  with Cons.prems obtain l where r: "r = Inr l"
    by (cases r) auto
  with Cons.prems tb obtain ls' where
    p: "per_batch_losses E ge m1 bs = Inr (ls', m')" and ls: "ls = l # ls'"
    by (auto split: sum.splits)
  note IH = Cons.IH [OF p, of "Suc i" "s + l"]
  show ?case
    using n tb r ls
    by (simp add: IH upt_0_Suc filter_map o_def add.assoc del: upt_Suc)
qed

lemma eq_sum_same_length:
  "length p = length gt \<Longrightarrow>
     eq_sum p gt = Inr (length (filter (\<lambda>(p, g). p = g) (zip p gt)))"
  by (simp add: eq_sum_def)

lemma val_batches_ok:
  assumes n: "n div 10 \<noteq> 0"
  shows "\<forall>b\<in>set bs. pred_ok E m b \<and> snd b \<noteq> [] \<Longrightarrow>
     val_batches E False n i bs m se ns out =
       (Inr (se + real (sum_list (map (n_matching E m) bs)),
             ns + sum_list (map (\<lambda>b. length (snd b)) bs)),
        out @ map (\<lambda>j. ValProgress (i + j)
                          ((se + real (sum_list (map (n_matching E m) (take (Suc j) bs))))
                           / real (ns + sum_list (map (\<lambda>b. length (snd b)) (take (Suc j) bs)))))
                  (filter (\<lambda>j. (i + j) mod (n div 10) = 0) [0..<length bs]))"
proof (induction bs arbitrary: i se ns out)
  case Nil
  then show ?case by simp
next
  case (Cons b bs)
  from Cons.prems obtain p where
    p: "predict_on_batch E False m b = Inr p" and len: "length p = length (snd b)"
    by (auto simp: pred_ok_def split: sum.splits)
  have nm: "n_matching E m b = length (filter (\<lambda>(p, g). p = g) (zip p (snd b)))"
    by (simp add: n_matching_def p)
  have ne: "snd b \<noteq> []" using Cons.prems by simp
  have rest: "\<forall>b\<in>set bs. pred_ok E m b \<and> snd b \<noteq> []" using Cons.prems by simp
  note IH = Cons.IH [OF rest, of "Suc i"]
  show ?case
    using n ne
    by (simp add: p eq_sum_same_length [OF len] nm [symmetric] IH upt_0_Suc filter_map o_def
          add.assoc del: upt_Suc)
qed



lemma train_on_loader_ok:
  assumes rp: "randperm_ok E" and n: "10 \<le> DataLoader_len l"
    and p: "per_batch_losses E (grad_enabled w) (m\<lparr>training := True\<rparr>)
              (fst (DataLoader_iter E l (rng w))) = Inr (ls, m')"
  shows "train_on_loader E (Some l) m w =
           (Inr (sum_list ls / real (DataLoader_len l)), m',
            w\<lparr>rng := snd (DataLoader_iter E l (rng w)),
              stdout := stdout w
                @ map (\<lambda>j. TrainProgress j (sum_list (take (Suc j) ls) / real (Suc j)))
                    (progress_indices (DataLoader_len l) (DataLoader_len l))\<rparr>)"
proof -
  have d: "DataLoader_len l div 10 \<noteq> 0" and z: "DataLoader_len l \<noteq> 0"
    using n by auto
  have len: "length (fst (DataLoader_iter E l (rng w))) = DataLoader_len l"
    by (rule length_iter [OF rp])
  obtain bs r' where it: "DataLoader_iter E l (rng w) = (bs, r')"
    by (cases "DataLoader_iter E l (rng w)")
  show ?thesis
    using train_batches_ok [OF d p, of 0 0 "stdout w"] z len
    by (simp add: train_on_loader_def Let_def progress_indices_def it)
qed

lemma sum_sizes_pos:
  assumes "bs \<noteq> []" and "\<forall>b\<in>set bs. snd b \<noteq> []"
  shows "sum_list (map (\<lambda>b. length (snd b)) bs) \<noteq> 0"
  using assms by (cases bs) auto

lemma val_on_loader_ok:
  assumes rp: "randperm_ok E" and n: "10 \<le> DataLoader_len l"
    and p: "\<forall>b\<in>set (fst (DataLoader_iter E l (rng w))). pred_ok E (m\<lparr>training := False\<rparr>) b"
  shows "val_on_loader E (Some l) m w =
           (Inr (real (sum_list (map (n_matching E (m\<lparr>training := False\<rparr>))
                                  (fst (DataLoader_iter E l (rng w)))))
                 / real (sum_list (map (\<lambda>b. length (snd b))
                                     (fst (DataLoader_iter E l (rng w)))))),
            m\<lparr>training := False\<rparr>,
            w\<lparr>rng := snd (DataLoader_iter E l (rng w)),
              stdout := stdout w
                @ map (\<lambda>j. ValProgress j
                         (real (sum_list (map (n_matching E (m\<lparr>training := False\<rparr>))
                                  (take (Suc j) (fst (DataLoader_iter E l (rng w))))))
                          / real (sum_list (map (\<lambda>b. length (snd b))
                                  (take (Suc j) (fst (DataLoader_iter E l (rng w))))))))
                    (progress_indices (DataLoader_len l) (DataLoader_len l))\<rparr>)"
proof -
  let ?bs = "fst (DataLoader_iter E l (rng w))"
  have d: "DataLoader_len l div 10 \<noteq> 0" using n by auto
  have len: "length ?bs = DataLoader_len l"
    by (rule length_iter [OF rp])
  have ne: "?bs \<noteq> []" using len n by auto
  have all: "\<forall>b\<in>set ?bs. pred_ok E (m\<lparr>training := False\<rparr>) b \<and> snd b \<noteq> []"
    using p by (auto dest: iter_labels_nonempty)
  have pos: "sum_list (map (\<lambda>b. length (snd b)) ?bs) \<noteq> 0"
    using sum_sizes_pos [OF ne] all by blast
  obtain bs r' where it: "DataLoader_iter E l (rng w) = (bs, r')"
    by (cases "DataLoader_iter E l (rng w)")
  show ?thesis
    using val_batches_ok [OF d all, of 0 0 0 "stdout w"] pos len
    by (simp add: val_on_loader_def val_on_loader_body_def Let_def progress_indices_def it)
qed

lemma train_on_loader_small:
  assumes rp: "randperm_ok E" and n: "1 \<le> DataLoader_len l" "DataLoader_len l < 10"
  shows "isl (fst (train_on_loader E (Some l) m w))
       \<and> (train_step_ok E (grad_enabled w) (m\<lparr>training := True\<rparr>)
             (hd (fst (DataLoader_iter E l (rng w))))
            \<longrightarrow> fst (train_on_loader E (Some l) m w) = Inl ZeroDivisionError)"
proof -
  have len: "length (fst (DataLoader_iter E l (rng w))) = DataLoader_len l"
    by (rule length_iter [OF rp])
  then obtain b bs where bs: "fst (DataLoader_iter E l (rng w)) = b # bs"
    using n by (cases "fst (DataLoader_iter E l (rng w))") auto
  show ?thesis
    using n bs
    by (auto simp: train_on_loader_def Let_def train_step_ok_def
          split: prod.splits sum.splits)
qed

lemma val_on_loader_small:
  assumes rp: "randperm_ok E" and n: "1 \<le> DataLoader_len l" "DataLoader_len l < 10"
  shows "isl (fst (val_on_loader E (Some l) m w))
       \<and> (pred_ok E (m\<lparr>training := False\<rparr>) (hd (fst (DataLoader_iter E l (rng w))))
            \<longrightarrow> fst (val_on_loader E (Some l) m w) = Inl ZeroDivisionError)"
proof -
  have len: "length (fst (DataLoader_iter E l (rng w))) = DataLoader_len l"
    by (rule length_iter [OF rp])
  then obtain b bs where bs: "fst (DataLoader_iter E l (rng w)) = b # bs"
    using n by (cases "fst (DataLoader_iter E l (rng w))") auto
  show ?thesis
    using n bs
    by (auto simp: val_on_loader_def val_on_loader_body_def Let_def pred_ok_def
          eq_sum_same_length split: prod.splits sum.splits)
qed

subsection \<open>One training step\<close>










lemma randperm_ok_env0: "randperm_ok env0"
  by (simp add: randperm_ok_def env0_def)

subsection \<open>The passes over a loader\<close>

text \<open>
  Claim C4. For a loader of at least one and fewer than ten batches, neither
  \<open>train_on_loader\<close> nor \<open>val_on_loader\<close> completes the pass, and the error is the
  division by zero of the progress-print step whenever the step on the first batch itself
  succeeds. For a loader of at least ten batches on which every step succeeds, the lines
  printed by a pass are the progress lines at the multiples of \<open>n_batches div 10\<close> below
  \<open>n_batches\<close>, each with the running mean.
\<close>

theorem progress_print_modulus:
  assumes rp: "randperm_ok E"
  shows
    "(1 \<le> DataLoader_len l1 \<and> DataLoader_len l1 < 10 \<longrightarrow>
        isl (fst (train_on_loader E (Some l1) m w))
        \<and> (train_step_ok E (grad_enabled w) (m\<lparr>training := True\<rparr>)
              (hd (fst (DataLoader_iter E l1 (rng w))))
             \<longrightarrow> fst (train_on_loader E (Some l1) m w) = Inl ZeroDivisionError)
        \<and> isl (fst (val_on_loader E (Some l1) m w))
        \<and> (pred_ok E (m\<lparr>training := False\<rparr>) (hd (fst (DataLoader_iter E l1 (rng w))))
             \<longrightarrow> fst (val_on_loader E (Some l1) m w) = Inl ZeroDivisionError))
     \<and> (10 \<le> DataLoader_len l2 \<longrightarrow>
          (per_batch_losses E (grad_enabled w) (m\<lparr>training := True\<rparr>)
              (fst (DataLoader_iter E l2 (rng w))) = Inr (ls, m')
            \<longrightarrow> stdout (snd (snd (train_on_loader E (Some l2) m w)))
                = stdout w
                  @ map (\<lambda>j. TrainProgress j (sum_list (take (Suc j) ls) / real (Suc j)))
                      (progress_indices (DataLoader_len l2) (DataLoader_len l2)))
          \<and> ((\<forall>b\<in>set (fst (DataLoader_iter E l2 (rng w))).
                 pred_ok E (m\<lparr>training := False\<rparr>) b)
            \<longrightarrow> stdout (snd (snd (val_on_loader E (Some l2) m w)))
                = stdout w
                  @ map (\<lambda>j. ValProgress j
                           (real (sum_list (map (n_matching E (m\<lparr>training := False\<rparr>))
                                    (take (Suc j) (fst (DataLoader_iter E l2 (rng w))))))
                            / real (sum_list (map (\<lambda>b. length (snd b))
                                    (take (Suc j) (fst (DataLoader_iter E l2 (rng w))))))))
                      (progress_indices (DataLoader_len l2) (DataLoader_len l2))))"
proof (intro conjI impI)
  assume a: "1 \<le> DataLoader_len l1 \<and> DataLoader_len l1 < 10"
  then have n: "1 \<le> DataLoader_len l1" "DataLoader_len l1 < 10" by auto
  show "isl (fst (train_on_loader E (Some l1) m w))"
    using train_on_loader_small [OF rp n] by blast
  show "isl (fst (val_on_loader E (Some l1) m w))"
    using val_on_loader_small [OF rp n] by blast
  show "fst (train_on_loader E (Some l1) m w) = Inl ZeroDivisionError"
    if "train_step_ok E (grad_enabled w) (m\<lparr>training := True\<rparr>)
          (hd (fst (DataLoader_iter E l1 (rng w))))"
    using train_on_loader_small [OF rp n] that by blast
  show "fst (val_on_loader E (Some l1) m w) = Inl ZeroDivisionError"
    if "pred_ok E (m\<lparr>training := False\<rparr>) (hd (fst (DataLoader_iter E l1 (rng w))))"
    using val_on_loader_small [OF rp n] that by blast
next
  assume n: "10 \<le> DataLoader_len l2"
    and p: "per_batch_losses E (grad_enabled w) (m\<lparr>training := True\<rparr>)
              (fst (DataLoader_iter E l2 (rng w))) = Inr (ls, m')"
  show "stdout (snd (snd (train_on_loader E (Some l2) m w)))
          = stdout w
            @ map (\<lambda>j. TrainProgress j (sum_list (take (Suc j) ls) / real (Suc j)))
                (progress_indices (DataLoader_len l2) (DataLoader_len l2))"
    by (simp add: train_on_loader_ok [OF rp n p])
next
  assume n: "10 \<le> DataLoader_len l2"
    and p: "\<forall>b\<in>set (fst (DataLoader_iter E l2 (rng w))). pred_ok E (m\<lparr>training := False\<rparr>) b"
  show "stdout (snd (snd (val_on_loader E (Some l2) m w)))
          = stdout w
            @ map (\<lambda>j. ValProgress j
                     (real (sum_list (map (n_matching E (m\<lparr>training := False\<rparr>))
                              (take (Suc j) (fst (DataLoader_iter E l2 (rng w))))))
                      / real (sum_list (map (\<lambda>b. length (snd b))
                              (take (Suc j) (fst (DataLoader_iter E l2 (rng w))))))))
                (progress_indices (DataLoader_len l2) (DataLoader_len l2))"
    by (simp add: val_on_loader_ok [OF rp n p])
qed




theorem progress_print_modulus_witness:
  "randperm_ok env0
   \<and> 1 \<le> DataLoader_len loader_small \<and> DataLoader_len loader_small < 10
   \<and> train_step_ok env0 (grad_enabled world0) (m0\<lparr>training := True\<rparr>)
         (hd (fst (DataLoader_iter env0 loader_small (rng world0))))
   \<and> fst (train_on_loader env0 (Some loader_small) m0 world0) = Inl ZeroDivisionError
   \<and> pred_ok env0 (m0\<lparr>training := False\<rparr>)
         (hd (fst (DataLoader_iter env0 loader_small (rng world0))))
   \<and> fst (val_on_loader env0 (Some loader_small) m0 world0) = Inl ZeroDivisionError
   \<and> 10 \<le> DataLoader_len loader_ten
   \<and> per_batch_losses env0 (grad_enabled world0) (m0\<lparr>training := True\<rparr>)
         (fst (DataLoader_iter env0 loader_ten (rng world0))) = Inr (losses_ten, m_ten)
   \<and> stdout (snd (snd (train_on_loader env0 (Some loader_ten) m0 world0)))
       = stdout world0
         @ map (\<lambda>j. TrainProgress j (sum_list (take (Suc j) losses_ten) / real (Suc j)))
             (progress_indices (DataLoader_len loader_ten) (DataLoader_len loader_ten))
   \<and> list_all (pred_ok env0 (m0\<lparr>training := False\<rparr>))
         (fst (DataLoader_iter env0 loader_ten (rng world0)))
   \<and> stdout (snd (snd (val_on_loader env0 (Some loader_ten) m0 world0)))
       = stdout world0
         @ map (\<lambda>j. ValProgress j
                  (real (sum_list (map (n_matching env0 (m0\<lparr>training := False\<rparr>))
                           (take (Suc j) (fst (DataLoader_iter env0 loader_ten (rng world0))))))
                   / real (sum_list (map (\<lambda>b. length (snd b))
                           (take (Suc j) (fst (DataLoader_iter env0 loader_ten (rng world0))))))))
             (progress_indices (DataLoader_len loader_ten) (DataLoader_len loader_ten))"
proof -
  have a: "1 \<le> DataLoader_len loader_small \<and> DataLoader_len loader_small < 10"
    by code_simp
  have b: "train_step_ok env0 (grad_enabled world0) (m0\<lparr>training := True\<rparr>)
         (hd (fst (DataLoader_iter env0 loader_small (rng world0))))"
    by code_simp
  have c: "pred_ok env0 (m0\<lparr>training := False\<rparr>)
         (hd (fst (DataLoader_iter env0 loader_small (rng world0))))"
    by code_simp
  have d: "10 \<le> DataLoader_len loader_ten"
    by code_simp
  have e: "per_batch_losses env0 (grad_enabled world0) (m0\<lparr>training := True\<rparr>)
         (fst (DataLoader_iter env0 loader_ten (rng world0))) = Inr (losses_ten, m_ten)"
    by code_simp
  have f: "list_all (pred_ok env0 (m0\<lparr>training := False\<rparr>))
             (fst (DataLoader_iter env0 loader_ten (rng world0)))"
    by code_simp
  then have g: "\<forall>b\<in>set (fst (DataLoader_iter env0 loader_ten (rng world0))).
          pred_ok env0 (m0\<lparr>training := False\<rparr>) b"
    by (simp add: list_all_iff)
  show ?thesis
    using progress_print_modulus [OF randperm_ok_env0, of loader_small m0 world0 loader_ten
        losses_ten m_ten]
      randperm_ok_env0 a b c d e f g
    by blast
qed




subsection \<open>Paths and files\<close>

lemma path_join_relative:
  "b \<noteq> [] \<Longrightarrow> hd b \<noteq> CHR ''/'' \<Longrightarrow> path_join a b = dir_prefix a @ b"
  by (simp add: path_join_def dir_prefix_def)

lemma checkpoint_paths:
  "path_join d ''exp_dict.json'' = dir_prefix d @ ''exp_dict.json''"
  "path_join d ''model.pth'' = dir_prefix d @ ''model.pth''"
  "path_join d ''score_list.pkl'' = dir_prefix d @ ''score_list.pkl''"
  by (simp_all add: path_join_relative)

lemma checkpoint_paths_distinct:
  "path_join d ''exp_dict.json'' \<noteq> path_join d ''model.pth''"
  "path_join d ''exp_dict.json'' \<noteq> path_join d ''score_list.pkl''"
  "path_join d ''model.pth'' \<noteq> path_join d ''score_list.pkl''"
  "path_join d ''score_list.pkl'' \<noteq> path_join d ''model.pth''"
  by (simp_all add: checkpoint_paths)

lemma is_under_checkpoint_paths:
  "is_under d (path_join d ''model.pth'')"
  "is_under d (path_join d ''score_list.pkl'')"
  by (simp_all add: checkpoint_paths is_under_def dir_prefix_def Let_def)

lemma map_of_filter_fst:
  "map_of (filter (\<lambda>e. P (fst e)) xs) k = (if P k then map_of xs k else None)"
  by (induction xs) auto

lemma map_of_write_file:
  "map_of (files (write_file p c w)) q = (if q = p then Some c else map_of (files w) q)"
  using map_of_filter_fst [of "\<lambda>k. k \<noteq> p" "files w" q]
  by (simp add: write_file_def)

lemma map_of_delete_experiment:
  "is_under d p \<Longrightarrow> map_of (files (delete_experiment E d w)) p = None"
  using map_of_filter_fst [of "\<lambda>k. \<not> is_under d k" _ p]
  by (simp add: delete_experiment_def del: filter_append)

lemma delete_experiment_empty:
  "list_all (\<lambda>e. \<not> is_under d (fst e)) (files w) \<Longrightarrow> files (delete_experiment E d w) = files w"
  by (simp add: delete_experiment_def list_all_iff filter_empty_conv[THEN iffD2] filter_id_conv[THEN iffD2])

lemma files_train_on_loader [simp]:
  "files (snd (snd (train_on_loader E l m w))) = files w"
  by (auto simp: train_on_loader_def Let_def split: option.splits prod.splits sum.splits)

lemma files_val_on_loader [simp]:
  "files (snd (snd (val_on_loader E l m w))) = files w"
  by (auto simp: val_on_loader_def val_on_loader_body_def Let_def
        split: option.splits prod.splits sum.splits)

subsection \<open>The loop over the epochs\<close>

lemma run_epoch_Inl:
  assumes "run_epoch E trl vl sd mp sp e m sl w = (Inl err, w')"
  shows "files w' = files w"
proof -
  obtain r1 m1 w1 where t: "train_on_loader E trl m w = (r1, m1, w1)"
    by (cases "train_on_loader E trl m w")
  obtain r2 m2 w2 where v: "val_on_loader E vl m1 w1 = (r2, m2, w2)"
    by (cases "val_on_loader E vl m1 w1")
  have f1: "files w1 = files w" using files_train_on_loader [of E trl m w] t by simp
  have f2: "files w2 = files w1" using files_val_on_loader [of E vl m1 w1] v by simp
  show ?thesis
    using assms t v f1 f2
    by (auto simp: run_epoch_def Let_def split: sum.splits)
qed

lemma run_epoch_Inr:
  assumes "run_epoch E trl vl sd mp sp e m sl w = (Inr (m', sl'), w')"
  shows "\<exists>rec. sl' = sl @ [rec] \<and> epoch rec = e"
    and "mp \<noteq> sp \<Longrightarrow> map_of (files w') sp = Some (Pkl sl')"
    and "mp \<noteq> sp \<Longrightarrow> map_of (files w') mp = Some (Pth (get_state_dict m'))"
    and "q \<noteq> mp \<Longrightarrow> q \<noteq> sp \<Longrightarrow> map_of (files w') q = map_of (files w) q"
proof -
  obtain r1 m1 w1 where t: "train_on_loader E trl m w = (r1, m1, w1)"
    by (cases "train_on_loader E trl m w")
  obtain r2 m2 w2 where v: "val_on_loader E vl m1 w1 = (r2, m2, w2)"
    by (cases "val_on_loader E vl m1 w1")
  have f1: "files w1 = files w" using files_train_on_loader [of E trl m w] t by simp
  have f2: "files w2 = files w1" using files_val_on_loader [of E vl m1 w1] v by simp
  show "\<exists>rec. sl' = sl @ [rec] \<and> epoch rec = e"
    using assms t v by (auto simp: run_epoch_def Let_def split: sum.splits)
  show "map_of (files w') sp = Some (Pkl sl')" if "mp \<noteq> sp"
    using assms t v that
    by (auto simp: run_epoch_def Let_def save_pkl_def torch_save_def map_of_write_file
          split: sum.splits)
  show "map_of (files w') mp = Some (Pth (get_state_dict m'))" if "mp \<noteq> sp"
    using assms t v that
    by (auto simp: run_epoch_def Let_def save_pkl_def torch_save_def map_of_write_file
          split: sum.splits)
  show "map_of (files w') q = map_of (files w) q" if "q \<noteq> mp" "q \<noteq> sp"
    using assms t v that f1 f2
    by (auto simp: run_epoch_def Let_def save_pkl_def torch_save_def map_of_write_file
          split: sum.splits)
qed

lemma epochs_scores:
  assumes d: "mp \<noteq> sp"
  shows "epochs E trl vl sd mp sp es model sl w = (r, w') \<Longrightarrow>
     \<exists>recs. map epoch recs = take (length recs) es
        \<and> (r = Inr () \<longrightarrow> length recs = length es)
        \<and> (if recs = [] then map_of (files w') sp = map_of (files w) sp
            else map_of (files w') sp = Some (Pkl (sl @ recs)))
        \<and> (recs = [] \<longrightarrow> map_of (files w') mp = map_of (files w) mp)"
proof (induction es arbitrary: model sl w)
  case Nil
  then show ?case by (intro exI [of _ "[]"]) simp
next
  case (Cons e es)
  show ?case
  proof (cases model)
    case None
    with Cons.prems show ?thesis by (intro exI [of _ "[]"]) auto
  next
    case (Some m)
    obtain r1 w1 where re: "run_epoch E trl vl sd mp sp e m sl w = (r1, w1)"
      by (cases "run_epoch E trl vl sd mp sp e m sl w")
    show ?thesis
    proof (cases r1)
      case (Inl err)
      then have "files w1 = files w" using run_epoch_Inl re by blast
      with Cons.prems Some re Inl show ?thesis
        by (intro exI [of _ "[]"]) auto
    next
      case (Inr ms)
      obtain m' sl' where ms: "ms = (m', sl')" by (cases ms)
      have re': "run_epoch E trl vl sd mp sp e m sl w = (Inr (m', sl'), w1)"
        using re Inr ms by simp
      from run_epoch_Inr(1) [OF re'] obtain rec where
        rec: "sl' = sl @ [rec]" "epoch rec = e" by blast
      have sp1: "map_of (files w1) sp = Some (Pkl sl')"
        by (rule run_epoch_Inr(2) [OF re' d])
      have rest: "epochs E trl vl sd mp sp es (Some m') sl' w1 = (r, w')"
        using Cons.prems Some re' by simp
      from Cons.IH [OF rest] obtain recs where
        a: "map epoch recs = take (length recs) es"
        and b: "r = Inr () \<longrightarrow> length recs = length es"
        and c: "if recs = [] then map_of (files w') sp = map_of (files w1) sp
                else map_of (files w') sp = Some (Pkl (sl' @ recs))"
        by blast
      show ?thesis
        using a b c rec sp1
        by (intro exI [of _ "rec # recs"]) (auto split: if_splits)
    qed
  qed
qed

subsection \<open>Resume and score history\<close>

lemma persisted_scores_cong:
  "map_of (files w') p = map_of (files w) p \<Longrightarrow> persisted_scores p w' = persisted_scores p w"
  by (simp add: persisted_scores_def)

lemma loop_complete:
  assumes sc: "map_of (files w) (path_join savedir ''score_list.pkl'') = Some (Pkl sl)"
    and ne: "sl \<noteq> []" and last: "epoch (last sl) = max_epoch - 1"
    and me: "getitem exp_dict ''max_epoch'' = Inr (HInt max_epoch)"
  shows "files (snd (checkpoint_and_loop E exp_dict trl vl savedir model w)) = files w
       \<and> rng (snd (checkpoint_and_loop E exp_dict trl vl savedir model w)) = rng w
       \<and> (stdout (snd (checkpoint_and_loop E exp_dict trl vl savedir model w)) = stdout w
          \<or> stdout (snd (checkpoint_and_loop E exp_dict trl vl savedir model w))
             = stdout w @ [StartingAt max_epoch, ExperimentCompleted])"
proof -
  have r: "py_range (epoch (last sl) + 1) max_epoch = []"
    using last by (simp add: py_range_def)
  show ?thesis
    using sc ne me r last
    by (auto simp: checkpoint_and_loop_def Let_def resume_def load_pkl_def path_exists_def
          print_def split: sum.splits option.splits)
qed

lemma stdout_bookkeeping:
  "stdout (snd (bookkeeping E exp_dict savedir_base False w))
     = stdout w @ [PPrint exp_dict,
                   ExperimentSaved (path_join savedir_base (hash_dict E exp_dict))]"
  by (simp add: bookkeeping_def Let_def print_def save_json_def write_file_def)

lemma files_bookkeeping:
  "map_of (files (snd (bookkeeping E exp_dict savedir_base False w))) q
     = (if q = path_join (path_join savedir_base (hash_dict E exp_dict)) ''exp_dict.json''
        then Some (Json exp_dict) else map_of (files w) q)"
  by (simp add: bookkeeping_def Let_def save_json_def map_of_write_file)

lemma fst_bookkeeping:
  "fst (bookkeeping E exp_dict savedir_base reset w) = path_join savedir_base (hash_dict E exp_dict)"
  by (simp add: bookkeeping_def Let_def)

text \<open>
  Claim C1. When the saved score history ends with the epoch \<open>max_epoch - 1\<close>, a call of
  \<open>trainval\<close> with the same configuration and directory and without reset runs no
  epoch: no epoch is left in the range, the output of the call holds no line of an epoch,
  and no file but the saved configuration changes, so the persisted score history and the
  model state are as before. This holds whatever the bindings of \<open>datasets\<close> and
  \<open>models\<close> are, and whether the call completes or stops with an error before the loop.
\<close>

theorem resume_after_completion:
  assumes sc: "map_of (files w)
                 (path_join (path_join savedir_base (hash_dict E exp_dict)) ''score_list.pkl'')
               = Some (Pkl sl)"
    and ne: "sl \<noteq> []" and last: "epoch (last sl) = max_epoch - 1"
    and me: "getitem exp_dict ''max_epoch'' = Inr (HInt max_epoch)"
  shows "py_range (epoch (last sl) + 1) max_epoch = []
       \<and> persisted_scores
            (path_join (path_join savedir_base (hash_dict E exp_dict)) ''score_list.pkl'')
            (snd (trainval E G exp_dict savedir_base False w)) = sl
       \<and> (\<forall>q. q \<noteq> path_join (path_join savedir_base (hash_dict E exp_dict)) ''exp_dict.json''
              \<longrightarrow> map_of (files (snd (trainval E G exp_dict savedir_base False w))) q
                  = map_of (files w) q)
       \<and> list_all (\<lambda>l. \<not> is_epoch_line l)
            (drop (length (stdout w)) (stdout (snd (trainval E G exp_dict savedir_base False w))))"
proof -
  let ?sd = "path_join savedir_base (hash_dict E exp_dict)"
  let ?sp = "path_join ?sd ''score_list.pkl''"
  let ?jp = "path_join ?sd ''exp_dict.json''"
  obtain sd w3 where bk: "bookkeeping E exp_dict savedir_base False w = (sd, w3)"
    by (cases "bookkeeping E exp_dict savedir_base False w")
  have sd: "sd = ?sd" using fst_bookkeeping [of E exp_dict savedir_base False w] bk by simp
  have f3: "map_of (files w3) q = (if q = ?jp then Some (Json exp_dict) else map_of (files w) q)"
    for q using files_bookkeeping [of E exp_dict savedir_base w q] bk by simp
  have o3: "stdout w3 = stdout w @ [PPrint exp_dict, ExperimentSaved ?sd]"
    using stdout_bookkeeping [of E exp_dict savedir_base w] bk by simp
  have sc3: "map_of (files w3) ?sp = Some (Pkl sl)"
    using sc f3 checkpoint_paths_distinct(2) [of ?sd] by auto
  have r: "py_range (epoch (last sl) + 1) max_epoch = []"
    using last by (simp add: py_range_def)
  let ?w' = "snd (trainval E G exp_dict savedir_base False w)"
  have main: "files ?w' = files w3
      \<and> (stdout ?w' = stdout w3 \<or> stdout ?w' = stdout w3 @ [StartingAt max_epoch, ExperimentCompleted])"
  proof (cases "load_datasets G exp_dict savedir_base")
    case (Inl e)
    then show ?thesis by (simp add: trainval_def bk)
  next
    case (Inr tv)
    obtain trl vl where tv: "tv = (trl, vl)" by (cases tv)
    obtain rm r' where lm: "load_model G exp_dict (rng w3) = (rm, r')"
      by (cases "load_model G exp_dict (rng w3)")
    show ?thesis
    proof (cases rm)
      case (Inl e)
      then show ?thesis using Inr tv lm by (simp add: trainval_def bk)
    next
      case (Inr model)
      have sc4: "map_of (files (w3\<lparr>rng := r'\<rparr>)) (path_join ?sd ''score_list.pkl'') = Some (Pkl sl)"
        using sc3 by simp
      show ?thesis
        using loop_complete [OF sc4 ne last me, of E trl vl model]
          \<open>load_datasets G exp_dict savedir_base = Inr tv\<close> tv lm Inr
        by (simp add: trainval_def bk sd)
    qed
  qed
  have a: "persisted_scores ?sp ?w' = sl"
    using main sc3 by (simp add: persisted_scores_def)
  have b: "\<forall>q. q \<noteq> ?jp \<longrightarrow> map_of (files ?w') q = map_of (files w) q"
    using main f3 by simp
  have c: "list_all (\<lambda>l. \<not> is_epoch_line l) (drop (length (stdout w)) (stdout ?w'))"
    using main o3 by auto
  show ?thesis using r a b c by blast
qed

theorem resume_after_completion_witness:
  "map_of (files world_done)
     (path_join (path_join ''base'' (hash_dict env0 cfg0)) ''score_list.pkl'')
     = Some (Pkl scores_done)
   \<and> scores_done \<noteq> [] \<and> epoch (last scores_done) = 2 - 1
   \<and> getitem cfg0 ''max_epoch'' = Inr (HInt 2)
   \<and> py_range (epoch (last scores_done) + 1) 2 = []
   \<and> persisted_scores
        (path_join (path_join ''base'' (hash_dict env0 cfg0)) ''score_list.pkl'')
        (snd (trainval env0 (file_globals env0) cfg0 ''base'' False world_done)) = scores_done
   \<and> ''base/a/model.pth''
       \<noteq> path_join (path_join ''base'' (hash_dict env0 cfg0)) ''exp_dict.json''
   \<and> map_of (files (snd (trainval env0 (file_globals env0) cfg0 ''base'' False world_done)))
         ''base/a/model.pth''
       = map_of (files world_done) ''base/a/model.pth''
   \<and> list_all (\<lambda>l. \<not> is_epoch_line l)
        (drop (length (stdout world_done))
           (stdout (snd (trainval env0 (file_globals env0) cfg0 ''base'' False world_done))))"
proof -
  have a: "map_of (files world_done)
     (path_join (path_join ''base'' (hash_dict env0 cfg0)) ''score_list.pkl'')
     = Some (Pkl scores_done)"
    by code_simp
  have b: "scores_done \<noteq> []" by (simp add: scores_done_def)
  have c: "epoch (last scores_done) = 2 - 1" by (simp add: scores_done_def)
  have d: "getitem cfg0 ''max_epoch'' = Inr (HInt 2)" by (simp add: cfg0_def getitem_def)
  have e: "''base/a/model.pth''
       \<noteq> path_join (path_join ''base'' (hash_dict env0 cfg0)) ''exp_dict.json''"
    by code_simp
  show ?thesis
    using resume_after_completion [OF a b c d, of "file_globals env0"] a b c d e
    by blast
qed

lemma map_of_none_under:
  "list_all (\<lambda>e. \<not> P (fst e)) xs \<Longrightarrow> P k \<Longrightarrow> map_of xs k = None"
  by (induction xs) auto

lemma loop_from_scratch:
  assumes sc: "map_of (files w) (path_join savedir ''score_list.pkl'') = None"
    and me: "getitem exp_dict ''max_epoch'' = Inr (HInt max_epoch)"
    and ok: "fst (checkpoint_and_loop E exp_dict trl vl savedir model w) = Inr ()"
  shows "map epoch (persisted_scores (path_join savedir ''score_list.pkl'')
                      (snd (checkpoint_and_loop E exp_dict trl vl savedir model w)))
         = [0..max_epoch - 1]"
proof -
  let ?mp = "path_join savedir ''model.pth''"
  let ?sp = "path_join savedir ''score_list.pkl''"
  let ?w5 = "print [StartingAt 0] w"
  obtain r w' where ep: "epochs E trl vl savedir ?mp ?sp (py_range 0 max_epoch) model [] ?w5 = (r, w')"
    by (cases "epochs E trl vl savedir ?mp ?sp (py_range 0 max_epoch) model [] ?w5")
  have res: "resume E model ?mp ?sp w = Inr (model, [], 0)"
    using sc by (simp add: resume_def path_exists_def)
  have cl: "checkpoint_and_loop E exp_dict trl vl savedir model w
              = (case r of Inl e \<Rightarrow> (Inl e, w') | Inr u \<Rightarrow> (Inr (), print [ExperimentCompleted] w'))"
    by (simp add: checkpoint_and_loop_def Let_def res me ep split: sum.splits)
  from ok cl have r: "r = Inr ()" by (cases r) auto
  from epochs_scores [OF checkpoint_paths_distinct(3), OF ep] obtain recs where
    a: "map epoch recs = take (length recs) (py_range 0 max_epoch)"
    and b: "r = Inr () \<longrightarrow> length recs = length (py_range 0 max_epoch)"
    and c: "if recs = [] then map_of (files w') ?sp = map_of (files ?w5) ?sp
            else map_of (files w') ?sp = Some (Pkl ([] @ recs))"
    by blast
  have e: "map epoch recs = [0..max_epoch - 1]"
    using a b r by (simp add: py_range_def)
  have "persisted_scores ?sp (print [ExperimentCompleted] w') = recs"
    using c sc by (auto simp: persisted_scores_def split: if_splits)
  then show ?thesis
    using cl r e by simp
qed

lemma loop_appends:
  "take (length (persisted_scores (path_join savedir ''score_list.pkl'') w))
     (persisted_scores (path_join savedir ''score_list.pkl'')
        (snd (checkpoint_and_loop E exp_dict trl vl savedir model w)))
   = persisted_scores (path_join savedir ''score_list.pkl'') w"
proof -
  let ?mp = "path_join savedir ''model.pth''"
  let ?sp = "path_join savedir ''score_list.pkl''"
  show ?thesis
  proof (cases "resume E model ?mp ?sp w")
    case (Inl e)
    then show ?thesis by (simp add: checkpoint_and_loop_def Let_def)
  next
    case (Inr t)
    obtain model' sl s where t: "t = (model', sl, s)" by (cases t)
    have sl: "sl = persisted_scores ?sp w"
      using Inr t
      by (auto simp: resume_def persisted_scores_def path_exists_def load_pkl_def
            split: if_splits option.splits sum.splits file_content.splits)
    let ?w5 = "print [StartingAt s] w"
    show ?thesis
    proof (cases "getitem exp_dict ''max_epoch''")
      case (Inl e)
      then show ?thesis
        using Inr t by (simp add: checkpoint_and_loop_def Let_def persisted_scores_def)
    next
      case me: (Inr v)
      show ?thesis
      proof (cases v)
        case (HInt max_epoch)
        obtain r w' where ep:
          "epochs E trl vl savedir ?mp ?sp (py_range s max_epoch) model' sl ?w5 = (r, w')"
          by (cases "epochs E trl vl savedir ?mp ?sp (py_range s max_epoch) model' sl ?w5")
        have cl: "snd (checkpoint_and_loop E exp_dict trl vl savedir model w)
              = (case r of Inl e \<Rightarrow> w' | Inr u \<Rightarrow> print [ExperimentCompleted] w')"
          using Inr t me HInt ep
          by (simp add: checkpoint_and_loop_def Let_def split: sum.splits)
        from epochs_scores [OF checkpoint_paths_distinct(3), OF ep] obtain recs where
          c: "if recs = [] then map_of (files w') ?sp = map_of (files ?w5) ?sp
              else map_of (files w') ?sp = Some (Pkl (sl @ recs))"
          by blast
        have "take (length sl) (persisted_scores ?sp w') = sl"
          using c sl by (auto simp: persisted_scores_def split: if_splits)
        then show ?thesis
          using cl sl by (cases r) (simp_all add: persisted_scores_def)
      next
        case (HStr x)
        then show ?thesis
          using Inr t me by (simp add: checkpoint_and_loop_def Let_def persisted_scores_def)
      next
        case (HFloat x)
        then show ?thesis
          using Inr t me by (simp add: checkpoint_and_loop_def Let_def persisted_scores_def)
      qed
    qed
  qed
qed

lemma files_bookkeeping_reset:
  "map_of (files (snd (bookkeeping E exp_dict savedir_base reset w))) q
     = (if q = path_join (path_join savedir_base (hash_dict E exp_dict)) ''exp_dict.json''
        then Some (Json exp_dict)
        else map_of (files (if reset
                            then delete_experiment E
                                   (path_join savedir_base (hash_dict E exp_dict)) w
                            else w)) q)"
  by (simp add: bookkeeping_def Let_def save_json_def map_of_write_file)

lemma trainval_unfold:
  assumes "bookkeeping E exp_dict savedir_base reset w = (sd, w3)"
  shows "trainval E G exp_dict savedir_base reset w
       = (case load_datasets G exp_dict savedir_base of
            Inl e \<Rightarrow> (Inl e, w3)
          | Inr tv \<Rightarrow>
              (case fst (load_model G exp_dict (rng w3)) of
                 Inl e \<Rightarrow> (Inl e, w3\<lparr>rng := snd (load_model G exp_dict (rng w3))\<rparr>)
               | Inr model \<Rightarrow>
                   checkpoint_and_loop E exp_dict (fst tv) (snd tv) sd model
                     (w3\<lparr>rng := snd (load_model G exp_dict (rng w3))\<rparr>)))"
  using assms by (simp add: trainval_def split: sum.splits prod.splits)

lemma trainval_from_scratch:
  assumes emp: "list_all (\<lambda>e. \<not> is_under (path_join savedir_base (hash_dict E exp_dict)) (fst e))
                  (files w)"
    and me: "getitem exp_dict ''max_epoch'' = Inr (HInt max_epoch)"
    and ok: "fst (trainval E G exp_dict savedir_base reset w) = Inr ()"
  shows "map epoch
          (persisted_scores
             (path_join (path_join savedir_base (hash_dict E exp_dict)) ''score_list.pkl'')
             (snd (trainval E G exp_dict savedir_base reset w)))
        = [0..max_epoch - 1]"
proof -
  let ?sd = "path_join savedir_base (hash_dict E exp_dict)"
  let ?sp = "path_join ?sd ''score_list.pkl''"
  obtain sd w3 where bk: "bookkeeping E exp_dict savedir_base reset w = (sd, w3)"
    by (cases "bookkeeping E exp_dict savedir_base reset w")
  have sd: "sd = ?sd" using fst_bookkeeping [of E exp_dict savedir_base reset w] bk by simp
  have none: "map_of (files w) ?sp = None"
    using emp is_under_checkpoint_paths(2) [of ?sd]
      map_of_none_under [of "is_under ?sd" "files w" ?sp]
    by simp
  have "map_of (files (if reset then delete_experiment E ?sd w else w)) ?sp = None"
    using none delete_experiment_empty [OF emp, of E] by simp
  moreover have "?sp \<noteq> path_join ?sd ''exp_dict.json''"
    using checkpoint_paths_distinct(2) [of ?sd] by simp
  moreover have "w3 = snd (bookkeeping E exp_dict savedir_base reset w)"
    using bk by simp
  ultimately have sc3: "map_of (files w3) ?sp = None"
    by (simp add: files_bookkeeping_reset)
  let ?r' = "snd (load_model G exp_dict (rng w3))"
  note tu = trainval_unfold [OF bk, of G]
  obtain tv where ld: "load_datasets G exp_dict savedir_base = Inr tv"
    using ok tu by (cases "load_datasets G exp_dict savedir_base") simp_all
  obtain model where lm: "fst (load_model G exp_dict (rng w3)) = Inr model"
    using ok tu ld by (cases "fst (load_model G exp_dict (rng w3))") simp_all
  have tv: "trainval E G exp_dict savedir_base reset w
      = checkpoint_and_loop E exp_dict (fst tv) (snd tv) ?sd model (w3\<lparr>rng := ?r'\<rparr>)"
    using tu ld lm sd by simp
  have sc4: "map_of (files (w3\<lparr>rng := ?r'\<rparr>)) (path_join ?sd ''score_list.pkl'') = None"
    using sc3 by simp
  have ok': "fst (checkpoint_and_loop E exp_dict (fst tv) (snd tv) ?sd model (w3\<lparr>rng := ?r'\<rparr>))
               = Inr ()"
    using ok tv by simp
  show ?thesis
    unfolding tv by (rule loop_from_scratch [OF sc4 me ok'])
qed

lemma trainval_appends:
  "take (length (persisted_scores
                   (path_join (path_join savedir_base (hash_dict E exp_dict)) ''score_list.pkl'')
                   w))
     (persisted_scores
        (path_join (path_join savedir_base (hash_dict E exp_dict)) ''score_list.pkl'')
        (snd (trainval E G exp_dict savedir_base False w)))
   = persisted_scores
       (path_join (path_join savedir_base (hash_dict E exp_dict)) ''score_list.pkl'') w"
proof -
  let ?sd = "path_join savedir_base (hash_dict E exp_dict)"
  let ?sp = "path_join ?sd ''score_list.pkl''"
  obtain sd w3 where bk: "bookkeeping E exp_dict savedir_base False w = (sd, w3)"
    by (cases "bookkeeping E exp_dict savedir_base False w")
  have sd: "sd = ?sd" using fst_bookkeeping [of E exp_dict savedir_base False w] bk by simp
  have f3: "map_of (files w3) ?sp = map_of (files w) ?sp"
    using files_bookkeeping [of E exp_dict savedir_base w ?sp] bk
      checkpoint_paths_distinct(2) [of ?sd] by auto
  then have p3: "persisted_scores ?sp w3 = persisted_scores ?sp w"
    by (rule persisted_scores_cong)
  let ?r' = "snd (load_model G exp_dict (rng w3))"
  have p4: "persisted_scores ?sp (w3\<lparr>rng := ?r'\<rparr>) = persisted_scores ?sp w"
    using p3 by (simp add: persisted_scores_def)
  note tu = trainval_unfold [OF bk, of G]
  show ?thesis
  proof (cases "load_datasets G exp_dict savedir_base")
    case (Inl e)
    then show ?thesis using tu p3 by simp
  next
    case (Inr tv)
    show ?thesis
    proof (cases "fst (load_model G exp_dict (rng w3))")
      case (Inl e)
      then show ?thesis using tu Inr p4 by simp
    next
      case model: (Inr model)
      have tv: "trainval E G exp_dict savedir_base False w
          = checkpoint_and_loop E exp_dict (fst tv) (snd tv) ?sd model (w3\<lparr>rng := ?r'\<rparr>)"
        using tu Inr model sd by simp
      show ?thesis
        using loop_appends [of ?sd "w3\<lparr>rng := ?r'\<rparr>" E exp_dict "fst tv" "snd tv" model]
        by (simp only: tv p4)
    qed
  qed
qed

text \<open>
  Claim C3, as the claim states it, fails: a call with reset set removes the records of
  the existing history. Here the directory holds one record of an earlier run; after the
  call the history holds the two records of the new run, and the earlier record is gone.
\<close>

theorem score_history_reset_counterexample:
  "persisted_scores ''base/a/score_list.pkl'' world_old
     = [\<lparr>train_loss = 1, val_acc = 1 / 2, epoch = 0\<rparr>]
   \<and> path_join (path_join ''base'' (hash_dict env0 cfg0)) ''score_list.pkl''
     = ''base/a/score_list.pkl''
   \<and> persisted_scores ''base/a/score_list.pkl''
       (snd (trainval env0 (file_globals env0) cfg0 ''base'' True world_old))
     = [\<lparr>train_loss = - (13 / 5), val_acc = 3 / 10, epoch = 0\<rparr>,
        \<lparr>train_loss = - 3, val_acc = 0, epoch = 1\<rparr>]"
  by code_simp

text \<open>
  Claim C3, amended. For every run of \<open>trainval\<close> that completes starting from an empty
  checkpoint directory, with or without reset, the epoch indices of the persisted score
  history are \<open>0, 1, .., max_epoch - 1\<close> in this order. Every call without reset only
  appends to the history that it finds: the history after the call, whether the call
  completes or raises, starts with the history before the call.
\<close>

theorem score_history_contiguous:
  "(list_all (\<lambda>e. \<not> is_under (path_join savedir_base (hash_dict E exp_dict)) (fst e)) (files w)
      \<and> getitem exp_dict ''max_epoch'' = Inr (HInt max_epoch)
      \<and> fst (trainval E G exp_dict savedir_base reset w) = Inr ()
    \<longrightarrow> map epoch
          (persisted_scores
             (path_join (path_join savedir_base (hash_dict E exp_dict)) ''score_list.pkl'')
             (snd (trainval E G exp_dict savedir_base reset w)))
        = [0..max_epoch - 1])
   \<and> take (length (persisted_scores
                     (path_join (path_join savedir_base (hash_dict E exp_dict))
                        ''score_list.pkl'') w))
        (persisted_scores
           (path_join (path_join savedir_base (hash_dict E exp_dict)) ''score_list.pkl'')
           (snd (trainval E G exp_dict savedir_base False w)))
     = persisted_scores
         (path_join (path_join savedir_base (hash_dict E exp_dict)) ''score_list.pkl'') w"
  using trainval_from_scratch [of savedir_base E exp_dict w max_epoch G reset]
    trainval_appends [of savedir_base E exp_dict w G]
  by blast

theorem score_history_contiguous_witness:
  "list_all (\<lambda>e. \<not> is_under (path_join ''base'' (hash_dict env0 cfg0)) (fst e)) (files world0)
   \<and> getitem cfg0 ''max_epoch'' = Inr (HInt 2)
   \<and> fst (trainval env0 (file_globals env0) cfg0 ''base'' False world0) = Inr ()
   \<and> map epoch
        (persisted_scores
           (path_join (path_join ''base'' (hash_dict env0 cfg0)) ''score_list.pkl'')
           (snd (trainval env0 (file_globals env0) cfg0 ''base'' False world0)))
     = [0..2 - 1]
   \<and> take (length (persisted_scores
                     (path_join (path_join ''base'' (hash_dict env0 cfg0)) ''score_list.pkl'')
                     world0))
        (persisted_scores
           (path_join (path_join ''base'' (hash_dict env0 cfg0)) ''score_list.pkl'')
           (snd (trainval env0 (file_globals env0) cfg0 ''base'' False world0)))
     = persisted_scores
         (path_join (path_join ''base'' (hash_dict env0 cfg0)) ''score_list.pkl'') world0"
proof -
  have a: "list_all (\<lambda>e. \<not> is_under (path_join ''base'' (hash_dict env0 cfg0)) (fst e))
             (files world0)"
    by (simp add: world0_def)
  have b: "getitem cfg0 ''max_epoch'' = Inr (HInt 2)"
    by (simp add: cfg0_def getitem_def)
  have c: "fst (trainval env0 (file_globals env0) cfg0 ''base'' False world0) = Inr ()"
    by code_simp
  show ?thesis
    using score_history_contiguous [of "''base''" env0 cfg0 world0 2 "file_globals env0" False]
      a b c
    by blast
qed

subsection \<open>Restoring the saved state\<close>

lemma hidden_state_load:
  "hidden_state i (load_hidden sd i ls)
     = map (\<lambda>k. (k, the (map_of sd k))) (map fst (hidden_state i ls))"
  by (induction ls arbitrary: i) (simp_all add: linear_state_def load_Linear_def)

lemma linear_state_load:
  "linear_state p (load_Linear sd p l)
     = map (\<lambda>k. (k, the (map_of sd k))) (map fst (linear_state p l))"
  by (simp add: linear_state_def load_Linear_def)

lemma map_of_tabulate:
  "map_of (map (\<lambda>k. (k, f k)) ks) k = (if k \<in> set ks then Some (f k) else None)"
  by (induction ks) auto

lemma load_state_dict_restores:
  assumes "load_state_dict E m sd = Inr m'"
  shows "map_of (model_state_dict m') = map_of sd" and "opt m' = opt m"
proof -
  define ks where "ks = map fst (model_state_dict m)"
  have keys: "set (map fst sd) = set ks"
    using assms by (auto simp: load_state_dict_def ks_def split: if_splits)
  have m': "m' = m\<lparr>hidden_layers := load_hidden sd 0 (hidden_layers m),
                    output_layer := load_Linear sd ''output_layer.'' (output_layer m)\<rparr>"
    using assms by (auto simp: load_state_dict_def split: if_splits)
  have msd: "model_state_dict m' = map (\<lambda>k. (k, the (map_of sd k))) ks"
    unfolding ks_def
    by (simp add: m' model_state_dict_def hidden_state_load linear_state_load del: map_map)
  show "opt m' = opt m" by (simp add: m')
  show "map_of (model_state_dict m') = map_of sd"
  proof
    fix k
    show "map_of (model_state_dict m') k = map_of sd k"
    proof (cases "k \<in> set (map fst sd)")
      case True
      then obtain v where "map_of sd k = Some v"
        by (metis map_of_eq_None_iff not_Some_eq set_map)
      then show ?thesis using True keys by (simp add: msd map_of_tabulate)
    next
      case False
      then have "map_of sd k = None" by (simp add: map_of_eq_None_iff)
      then show ?thesis using False keys by (simp add: msd map_of_tabulate)
    qed
  qed
qed

lemma set_state_dict_restores:
  assumes "set_state_dict E m sd = Inr m'"
  shows "map_of (model_state_dict m') = map_of (sd_model sd) \<and> opt m' = sd_opt sd"
proof -
  obtain m1 where l: "load_state_dict E m (sd_model sd) = Inr m1"
    using assms by (cases "load_state_dict E m (sd_model sd)") (auto simp: set_state_dict_def)
  obtain o' where o: "opt_load_state_dict (opt m1) (sd_opt sd) = Inr o'" and m': "m' = m1\<lparr>opt := o'\<rparr>"
    using assms l
    by (cases "opt_load_state_dict (opt m1) (sd_opt sd)") (auto simp: set_state_dict_def)
  have "o' = sd_opt sd"
    using o by (cases "opt m1"; cases "sd_opt sd") (auto simp: opt_load_state_dict_def split: if_splits)
  moreover have "model_state_dict m' = model_state_dict m1"
    by (simp add: m' model_state_dict_def)
  ultimately show ?thesis
    using load_state_dict_restores(1) [OF l] m' by simp
qed


lemma rng_bookkeeping:
  "rng (snd (bookkeeping E exp_dict savedir_base reset w)) = rng w"
  by (simp add: bookkeeping_def Let_def print_def save_json_def write_file_def
        delete_experiment_def)

text \<open>
  Claim C2. When the score file holds a non-empty history and the model-state file holds a
  state, \<open>trainval\<close> (without reset, with the loaders and the fresh model that the
  bindings give) first loads the state into the model. If that succeeds, the loop runs the
  epochs from one past the epoch of the last saved record up to \<open>max_epoch - 1\<close>, on the
  saved history and on the restored model, whose parameters are the saved tensors under
  the saved names and whose optimizer state is the saved one. If it fails, \<open>trainval\<close>
  raises that error before any epoch.
\<close>

theorem resume_restores_state:
  assumes sd: "savedir = path_join savedir_base (hash_dict E exp_dict)"
    and mp: "model_path = path_join savedir ''model.pth''"
    and sp: "score_list_path = path_join savedir ''score_list.pkl''"
    and ld: "load_datasets G exp_dict savedir_base = Inr (trl, vl)"
    and lm: "load_model G exp_dict (rng w) = (Inr (Some m), r')"
    and sc: "map_of (files w) score_list_path = Some (Pkl sl)" and ne: "sl \<noteq> []"
    and mf: "map_of (files w) model_path = Some (Pth sd)"
    and me: "getitem exp_dict ''max_epoch'' = Inr (HInt max_epoch)"
  shows "(set_state_dict E m sd = Inr m' \<longrightarrow>
            trainval E G exp_dict savedir_base False w
              = (case epochs E trl vl savedir model_path score_list_path
                        [epoch (last sl) + 1..max_epoch - 1] (Some m') sl
                        (print [StartingAt (epoch (last sl) + 1)]
                           ((snd (bookkeeping E exp_dict savedir_base False w))\<lparr>rng := r'\<rparr>)) of
                   (Inl e, w6) \<Rightarrow> (Inl e, w6)
                 | (Inr u, w6) \<Rightarrow> (Inr (), print [ExperimentCompleted] w6))
            \<and> map_of (model_state_dict m') = map_of (sd_model sd)
            \<and> opt m' = sd_opt sd)
       \<and> (set_state_dict E m sd = Inl err \<longrightarrow>
            trainval E G exp_dict savedir_base False w
              = (Inl err, (snd (bookkeeping E exp_dict savedir_base False w))\<lparr>rng := r'\<rparr>))"
proof -
  obtain sd0 w3 where bk: "bookkeeping E exp_dict savedir_base False w = (sd0, w3)"
    by (cases "bookkeeping E exp_dict savedir_base False w")
  have sd0: "sd0 = savedir"
    using fst_bookkeeping [of E exp_dict savedir_base False w] bk sd by simp
  have w3: "w3 = snd (bookkeeping E exp_dict savedir_base False w)"
    using bk by simp
  have r3: "rng w3 = rng w"
    by (simp add: w3 rng_bookkeeping)
  have jp: "score_list_path \<noteq> path_join savedir ''exp_dict.json''"
    "model_path \<noteq> path_join savedir ''exp_dict.json''"
    using checkpoint_paths_distinct [of savedir] by (simp_all add: mp sp)
  have f3: "map_of (files w3) score_list_path = Some (Pkl sl)"
    "map_of (files w3) model_path = Some (Pth sd)"
    using jp sc mf by (simp_all add: w3 files_bookkeeping sd [symmetric])
  let ?w4 = "w3\<lparr>rng := r'\<rparr>"
  have tv: "trainval E G exp_dict savedir_base False w
              = checkpoint_and_loop E exp_dict trl vl savedir (Some m) ?w4"
    using trainval_unfold [OF bk, of G] ld lm r3 sd0 by simp
  have res: "resume E (Some m) model_path score_list_path ?w4
               = (case set_state_dict E m sd of
                    Inl e \<Rightarrow> Inl e
                  | Inr m1 \<Rightarrow> Inr (Some m1, sl, epoch (last sl) + 1))"
    using f3 ne
    by (simp add: resume_def path_exists_def torch_load_def load_pkl_def split: sum.splits)
  show ?thesis
  proof (intro conjI impI)
    assume ok: "set_state_dict E m sd = Inr m'"
    show "trainval E G exp_dict savedir_base False w
              = (case epochs E trl vl savedir model_path score_list_path
                        [epoch (last sl) + 1..max_epoch - 1] (Some m') sl
                        (print [StartingAt (epoch (last sl) + 1)]
                           ((snd (bookkeeping E exp_dict savedir_base False w))\<lparr>rng := r'\<rparr>)) of
                   (Inl e, w6) \<Rightarrow> (Inl e, w6)
                 | (Inr u, w6) \<Rightarrow> (Inr (), print [ExperimentCompleted] w6))"
      using res ok me
      by (simp add: tv checkpoint_and_loop_def Let_def mp [symmetric] sp [symmetric]
            py_range_def w3 [symmetric] split: prod.splits sum.splits)
    show "map_of (model_state_dict m') = map_of (sd_model sd)"
      using set_state_dict_restores [OF ok] by simp
    show "opt m' = sd_opt sd"
      using set_state_dict_restores [OF ok] by simp
  next
    assume bad: "set_state_dict E m sd = Inl err"
    show "trainval E G exp_dict savedir_base False w
              = (Inl err, (snd (bookkeeping E exp_dict savedir_base False w))\<lparr>rng := r'\<rparr>)"
      using res bad
      by (simp add: tv checkpoint_and_loop_def Let_def mp [symmetric] sp [symmetric]
            w3 [symmetric])
  qed
qed

theorem resume_restores_state_witness:
  "''base/a'' = path_join ''base'' (hash_dict env0 cfg0)
   \<and> ''base/a/model.pth'' = path_join ''base/a'' ''model.pth''
   \<and> ''base/a/score_list.pkl'' = path_join ''base/a'' ''score_list.pkl''
   \<and> load_datasets (file_globals env0) cfg0 ''base'' = Inr (Some loader_ten, Some loader_ten)
   \<and> load_model (file_globals env0) cfg0 (rng world_old) = (Inr (Some m0), 2)
   \<and> map_of (files world_old) ''base/a/score_list.pkl''
       = Some (Pkl [\<lparr>train_loss = 1, val_acc = 1 / 2, epoch = 0\<rparr>])
   \<and> [\<lparr>train_loss = 1, val_acc = 1 / 2, epoch = 0\<rparr>] \<noteq> []
   \<and> map_of (files world_old) ''base/a/model.pth'' = Some (Pth (get_state_dict m_trained))
   \<and> getitem cfg0 ''max_epoch'' = Inr (HInt 2)
   \<and> set_state_dict env0 m0 (get_state_dict m_trained) = Inr m_resumed
   \<and> trainval env0 (file_globals env0) cfg0 ''base'' False world_old
       = (case epochs env0 (Some loader_ten) (Some loader_ten) ''base/a'' ''base/a/model.pth''
                 ''base/a/score_list.pkl''
                 [epoch (last [\<lparr>train_loss = 1, val_acc = 1 / 2, epoch = 0\<rparr>]) + 1..2 - 1]
                 (Some m_resumed) [\<lparr>train_loss = 1, val_acc = 1 / 2, epoch = 0\<rparr>]
                 (print [StartingAt
                           (epoch (last [\<lparr>train_loss = 1, val_acc = 1 / 2, epoch = 0\<rparr>]) + 1)]
                    ((snd (bookkeeping env0 cfg0 ''base'' False world_old))\<lparr>rng := 2\<rparr>)) of
            (Inl e, w6) \<Rightarrow> (Inl e, w6)
          | (Inr u, w6) \<Rightarrow> (Inr (), print [ExperimentCompleted] w6))
   \<and> map_of (model_state_dict m_resumed) = map_of (sd_model (get_state_dict m_trained))
   \<and> opt m_resumed = sd_opt (get_state_dict m_trained)
   \<and> load_model (file_globals env0) cfg0 (rng world_bad) = (Inr (Some m0), 2)
   \<and> map_of (files world_bad) ''base/a/score_list.pkl''
       = Some (Pkl [\<lparr>train_loss = 1, val_acc = 1 / 2, epoch = 0\<rparr>])
   \<and> map_of (files world_bad) ''base/a/model.pth'' = Some (Pth sd_bad)
   \<and> set_state_dict env0 m0 sd_bad = Inl RuntimeError
   \<and> trainval env0 (file_globals env0) cfg0 ''base'' False world_bad
       = (Inl RuntimeError, (snd (bookkeeping env0 cfg0 ''base'' False world_bad))\<lparr>rng := 2\<rparr>)"
proof -
  have p1: "''base/a'' = path_join ''base'' (hash_dict env0 cfg0)"
    and p2: "''base/a/model.pth'' = path_join ''base/a'' ''model.pth''"
    and p3: "''base/a/score_list.pkl'' = path_join ''base/a'' ''score_list.pkl''"
    by code_simp+
  have ld: "load_datasets (file_globals env0) cfg0 ''base''
              = Inr (Some loader_ten, Some loader_ten)"
    by code_simp
  have lm: "load_model (file_globals env0) cfg0 (rng world_old) = (Inr (Some m0), 2)"
    by code_simp
  have sc: "map_of (files world_old) ''base/a/score_list.pkl''
       = Some (Pkl [\<lparr>train_loss = 1, val_acc = 1 / 2, epoch = 0\<rparr>])"
    by (simp add: world_old_def)
  have ne: "[\<lparr>train_loss = 1, val_acc = 1 / 2, epoch = 0\<rparr>] \<noteq> []"
    by simp
  have mf: "map_of (files world_old) ''base/a/model.pth'' = Some (Pth (get_state_dict m_trained))"
    by (simp add: world_old_def)
  have me: "getitem cfg0 ''max_epoch'' = Inr (HInt 2)"
    by (simp add: cfg0_def getitem_def)
  have ok: "set_state_dict env0 m0 (get_state_dict m_trained) = Inr m_resumed"
    by code_simp
  have lm2: "load_model (file_globals env0) cfg0 (rng world_bad) = (Inr (Some m0), 2)"
    by code_simp
  have sc2: "map_of (files world_bad) ''base/a/score_list.pkl''
       = Some (Pkl [\<lparr>train_loss = 1, val_acc = 1 / 2, epoch = 0\<rparr>])"
    by (simp add: world_bad_def)
  have mf2: "map_of (files world_bad) ''base/a/model.pth'' = Some (Pth sd_bad)"
    by (simp add: world_bad_def)
  have bad: "set_state_dict env0 m0 sd_bad = Inl RuntimeError"
    by code_simp
  note A = resume_restores_state [OF p1 p2 p3 ld lm sc ne mf me, where m' = m_resumed and err = RuntimeError]
  note B = resume_restores_state [OF p1 p2 p3 ld lm2 sc2 ne mf2 me, where m' = m_resumed and err = RuntimeError]
  show ?thesis
    using A B p1 p2 p3 ld lm sc ne mf me ok lm2 sc2 mf2 bad
    by blast
qed

subsection \<open>Two runs that differ in the learning rate of the configuration\<close>

lemma train_batches_out:
  "fst (train_batches E ge n i bs m s out) = fst (train_batches E ge n i bs m s out')
   \<and> fst (snd (train_batches E ge n i bs m s out))
       = fst (snd (train_batches E ge n i bs m s out'))"
proof (induction bs arbitrary: i m s out out')
  case Nil
  show ?case by simp
next
  case (Cons b bs)
  obtain r m1 where tb: "train_on_batch E ge m b = (r, m1)"
    by (cases "train_on_batch E ge m b")
  show ?case
  proof (cases r)
    case (Inl e)
    then show ?thesis using tb by simp
  next
    case (Inr l)
    show ?thesis
      using tb Inr Cons.IH
      by (simp add: Let_def)
  qed
qed

lemma val_batches_out:
  "fst (val_batches E ge n i bs m se ns out) = fst (val_batches E ge n i bs m se ns out')"
proof (induction bs arbitrary: i se ns out out')
  case Nil
  show ?case by simp
next
  case (Cons b bs)
  show ?case
    using Cons.IH
    by (simp add: Let_def split: sum.splits)
qed

lemma train_on_loader_related:
  assumes "rng wa = rng wb" "grad_enabled wa = grad_enabled wb"
  shows "fst (train_on_loader E l m wa) = fst (train_on_loader E l m wb)
       \<and> fst (snd (train_on_loader E l m wa)) = fst (snd (train_on_loader E l m wb))
       \<and> rng (snd (snd (train_on_loader E l m wa))) = rng (snd (snd (train_on_loader E l m wb)))
       \<and> grad_enabled (snd (snd (train_on_loader E l m wa)))
           = grad_enabled (snd (snd (train_on_loader E l m wb)))"
proof (cases l)
  case None
  then show ?thesis using assms by (simp add: train_on_loader_def)
next
  case (Some ld)
  obtain bs r' where it: "DataLoader_iter E ld (rng wb) = (bs, r')"
    by (cases "DataLoader_iter E ld (rng wb)")
  let ?ta = "train_batches E (grad_enabled wb) (DataLoader_len ld) 0 bs (m\<lparr>training := True\<rparr>) 0 (stdout wa)"
  let ?tb = "train_batches E (grad_enabled wb) (DataLoader_len ld) 0 bs (m\<lparr>training := True\<rparr>) 0 (stdout wb)"
  have eq: "fst ?ta = fst ?tb" "fst (snd ?ta) = fst (snd ?tb)"
    using train_batches_out [of E "grad_enabled wb" "DataLoader_len ld" 0 bs _ 0 "stdout wa" "stdout wb"]
    by simp_all
  obtain ra ma oa where ta: "?ta = (ra, ma, oa)" by (cases ?ta)
  obtain rb mb ob where tb: "?tb = (rb, mb, ob)" by (cases ?tb)
  have "ra = rb" "ma = mb" using eq ta tb by simp_all
  then show ?thesis
    using assms Some it ta tb
    by (simp add: train_on_loader_def Let_def split: sum.splits)
qed

lemma val_on_loader_related:
  assumes "rng wa = rng wb" "grad_enabled wa = grad_enabled wb"
  shows "fst (val_on_loader E l m wa) = fst (val_on_loader E l m wb)
       \<and> fst (snd (val_on_loader E l m wa)) = fst (snd (val_on_loader E l m wb))
       \<and> rng (snd (snd (val_on_loader E l m wa))) = rng (snd (snd (val_on_loader E l m wb)))
       \<and> grad_enabled (snd (snd (val_on_loader E l m wa)))
           = grad_enabled (snd (snd (val_on_loader E l m wb)))"
proof (cases l)
  case None
  then show ?thesis using assms by (simp add: val_on_loader_def val_on_loader_body_def)
next
  case (Some ld)
  obtain bs r' where it: "DataLoader_iter E ld (rng wb) = (bs, r')"
    by (cases "DataLoader_iter E ld (rng wb)")
  let ?va = "val_batches E False (DataLoader_len ld) 0 bs (m\<lparr>training := False\<rparr>) 0 0 (stdout wa)"
  let ?vb = "val_batches E False (DataLoader_len ld) 0 bs (m\<lparr>training := False\<rparr>) 0 0 (stdout wb)"
  have eq: "fst ?va = fst ?vb"
    by (rule val_batches_out)
  obtain ra oa where va: "?va = (ra, oa)" by (cases ?va)
  obtain rb ob where vb: "?vb = (rb, ob)" by (cases ?vb)
  have "ra = rb" using eq va vb by simp
  then show ?thesis
    using assms Some it va vb
    by (simp add: val_on_loader_def val_on_loader_body_def Let_def split: sum.splits prod.splits)
qed


lemma same_checkpoint_print [simp]:
  "same_checkpoint da db (print la wa) (print lb wb) = same_checkpoint da db wa wb"
  by (simp add: same_checkpoint_def print_def)

lemma run_epoch_related:
  assumes R: "same_checkpoint da db wa wb"
  shows "fst (run_epoch E trl vl sda (path_join da ''model.pth'') (path_join da ''score_list.pkl'')
                e m sl wa)
         = fst (run_epoch E trl vl sdb (path_join db ''model.pth'')
                  (path_join db ''score_list.pkl'') e m sl wb)
       \<and> same_checkpoint da db
           (snd (run_epoch E trl vl sda (path_join da ''model.pth'')
                   (path_join da ''score_list.pkl'') e m sl wa))
           (snd (run_epoch E trl vl sdb (path_join db ''model.pth'')
                   (path_join db ''score_list.pkl'') e m sl wb))"
proof -
  have r: "rng wa = rng wb" and g: "grad_enabled wa = grad_enabled wb"
    using R by (simp_all add: same_checkpoint_def)
  obtain r1 m1 w1a where ta: "train_on_loader E trl m wa = (r1, m1, w1a)"
    by (cases "train_on_loader E trl m wa")
  obtain r1' m1' w1b where tb: "train_on_loader E trl m wb = (r1', m1', w1b)"
    by (cases "train_on_loader E trl m wb")
  have t: "r1 = r1'" "m1 = m1'" "rng w1a = rng w1b" "grad_enabled w1a = grad_enabled w1b"
    using train_on_loader_related [OF r g, of E trl m] ta tb by simp_all
  have f1: "files w1a = files wa" "files w1b = files wb"
    using files_train_on_loader [of E trl m wa] files_train_on_loader [of E trl m wb] ta tb
    by simp_all
  obtain r2 m2 w2a where va: "val_on_loader E vl m1 w1a = (r2, m2, w2a)"
    by (cases "val_on_loader E vl m1 w1a")
  obtain r2' m2' w2b where vb: "val_on_loader E vl m1 w1b = (r2', m2', w2b)"
    by (cases "val_on_loader E vl m1 w1b")
  have v: "r2 = r2'" "m2 = m2'" "rng w2a = rng w2b" "grad_enabled w2a = grad_enabled w2b"
    using val_on_loader_related [OF t(3) t(4), of E vl m1] va vb by simp_all
  have f2: "files w2a = files wa" "files w2b = files wb"
    using files_val_on_loader [of E vl m1 w1a] files_val_on_loader [of E vl m1 w1b] va vb f1
    by simp_all
  have tb': "train_on_loader E trl m wb = (r1, m1, w1b)"
    using tb t by simp
  have vb': "val_on_loader E vl m1 w1b = (r2, m2, w2b)"
    using vb v by simp
  have R1: "same_checkpoint da db w1a w1b"
    using R t f1 by (simp add: same_checkpoint_def)
  have R2: "same_checkpoint da db w2a w2b"
    using R v f2 by (simp add: same_checkpoint_def)
  show ?thesis
  proof (cases r1)
    case (Inl err)
    then show ?thesis using R1 by (simp add: run_epoch_def ta tb')
  next
    case tl: (Inr train_loss')
    show ?thesis
    proof (cases r2)
      case (Inl err)
      then show ?thesis using R2 by (simp add: run_epoch_def ta tb' va vb' tl)
    next
      case (Inr val_acc')
      have d: "path_join da ''model.pth'' \<noteq> path_join da ''score_list.pkl''"
        "path_join db ''model.pth'' \<noteq> path_join db ''score_list.pkl''"
        by (rule checkpoint_paths_distinct(3))+
      show ?thesis
        using R2 d
        by (simp add: run_epoch_def ta tb' va vb' tl Inr Let_def same_checkpoint_def print_def
              torch_save_def save_pkl_def map_of_write_file)
          (simp add: write_file_def)
    qed
  qed
qed

lemma epochs_related:
  "same_checkpoint da db wa wb \<Longrightarrow>
   fst (epochs E trl vl sda (path_join da ''model.pth'') (path_join da ''score_list.pkl'')
          es model sl wa)
     = fst (epochs E trl vl sdb (path_join db ''model.pth'') (path_join db ''score_list.pkl'')
              es model sl wb)
   \<and> same_checkpoint da db
       (snd (epochs E trl vl sda (path_join da ''model.pth'') (path_join da ''score_list.pkl'')
               es model sl wa))
       (snd (epochs E trl vl sdb (path_join db ''model.pth'') (path_join db ''score_list.pkl'')
               es model sl wb))"
proof (induction es arbitrary: model sl wa wb)
  case Nil
  then show ?case by simp
next
  case (Cons e es)
  show ?case
  proof (cases model)
    case None
    then show ?thesis using Cons.prems by simp
  next
    case (Some m)
    let ?ra = "run_epoch E trl vl sda (path_join da ''model.pth'')
                 (path_join da ''score_list.pkl'') e m sl wa"
    let ?rb = "run_epoch E trl vl sdb (path_join db ''model.pth'')
                 (path_join db ''score_list.pkl'') e m sl wb"
    obtain ra wa' where a: "?ra = (ra, wa')" by (cases ?ra)
    obtain rb wb' where b: "?rb = (rb, wb')" by (cases ?rb)
    have eq: "ra = rb" and R': "same_checkpoint da db wa' wb'"
      using run_epoch_related [OF Cons.prems, of E trl vl sda e m sl sdb] a b by simp_all
    have b': "?rb = (ra, wb')" using b eq by simp
    show ?thesis
    proof (cases ra)
      case (Inl err)
      then show ?thesis using R' by (simp add: Some a b')
    next
      case (Inr ms)
      obtain m' sl' where ms: "ms = (m', sl')" by (cases ms)
      show ?thesis
        using Cons.IH [OF R', of "Some m'" sl']
        by (simp add: Some a b' Inr ms)
    qed
  qed
qed

lemma getitem_without_lr:
  assumes "without_lr d1 = without_lr d2" and "k \<noteq> ''lr''"
  shows "getitem d1 k = getitem d2 k"
proof -
  have "map_of d1 k = map_of (without_lr d1) k" "map_of d2 k = map_of (without_lr d2) k"
    using assms(2) map_of_filter_fst [of "\<lambda>k. k \<noteq> ''lr''" d1 k]
      map_of_filter_fst [of "\<lambda>k. k \<noteq> ''lr''" d2 k]
    by (simp_all add: without_lr_def)
  then show ?thesis using assms(1) by (simp add: getitem_def)
qed

lemma load_datasets_without_lr:
  assumes "without_lr d1 = without_lr d2"
  shows "load_datasets G d1 base = load_datasets G d2 base"
  using getitem_without_lr [OF assms, of "''dataset''"]
    getitem_without_lr [OF assms, of "''batch_size''"]
  by (simp add: load_datasets_def cong: option.case_cong sum.case_cong)

lemma load_model_without_lr:
  assumes "without_lr d1 = without_lr d2"
  shows "load_model G d1 r = load_model G d2 r"
  using getitem_without_lr [OF assms, of "''model''"]
  by (simp add: load_model_def cong: option.case_cong)

lemma resume_related:
  assumes "same_checkpoint da db wa wb"
  shows "resume E model (path_join da ''model.pth'') (path_join da ''score_list.pkl'') wa
       = resume E model (path_join db ''model.pth'') (path_join db ''score_list.pkl'') wb"
proof -
  have "map_of (files wa) (path_join da ''model.pth'')
          = map_of (files wb) (path_join db ''model.pth'')"
    and "map_of (files wa) (path_join da ''score_list.pkl'')
          = map_of (files wb) (path_join db ''score_list.pkl'')"
    using assms by (simp_all add: same_checkpoint_def)
  then have "torch_load (path_join da ''model.pth'') wa = torch_load (path_join db ''model.pth'') wb"
    and "load_pkl (path_join da ''score_list.pkl'') wa
           = load_pkl (path_join db ''score_list.pkl'') wb"
    and "path_exists (path_join da ''score_list.pkl'') wa
           = path_exists (path_join db ''score_list.pkl'') wb"
    by (simp_all add: path_exists_def torch_load_def load_pkl_def)
  then show ?thesis
    by (simp only: resume_def)
qed

lemma checkpoint_and_loop_related:
  assumes R: "same_checkpoint da db wa wb"
    and me: "getitem d1 ''max_epoch'' = getitem d2 ''max_epoch''"
  shows "fst (checkpoint_and_loop E d1 trl vl da model wa)
         = fst (checkpoint_and_loop E d2 trl vl db model wb)
       \<and> same_checkpoint da db (snd (checkpoint_and_loop E d1 trl vl da model wa))
           (snd (checkpoint_and_loop E d2 trl vl db model wb))"
proof (cases "resume E model (path_join db ''model.pth'') (path_join db ''score_list.pkl'') wb")
  case (Inl e)
  then show ?thesis
    using R resume_related [OF R, of E model]
    by (simp add: checkpoint_and_loop_def Let_def)
next
  case (Inr t)
  obtain model' sl s where t: "t = (model', sl, s)" by (cases t)
  have ra: "resume E model (path_join da ''model.pth'') (path_join da ''score_list.pkl'') wa
              = Inr (model', sl, s)"
    using resume_related [OF R, of E model] Inr t by simp
  have rb: "resume E model (path_join db ''model.pth'') (path_join db ''score_list.pkl'') wb
              = Inr (model', sl, s)"
    using Inr t by simp
  have R5: "same_checkpoint da db (print [StartingAt s] wa) (print [StartingAt s] wb)"
    using R by simp
  show ?thesis
  proof (cases "getitem d2 ''max_epoch''")
    case (Inl e)
    then show ?thesis
      using me R5 by (simp add: checkpoint_and_loop_def Let_def ra rb)
  next
    case v: (Inr v)
    show ?thesis
    proof (cases v)
      case (HInt max_epoch)
      let ?ea = "epochs E trl vl da (path_join da ''model.pth'') (path_join da ''score_list.pkl'')
                   (py_range s max_epoch) model' sl (print [StartingAt s] wa)"
      let ?eb = "epochs E trl vl db (path_join db ''model.pth'') (path_join db ''score_list.pkl'')
                   (py_range s max_epoch) model' sl (print [StartingAt s] wb)"
      obtain ea wa' where a: "?ea = (ea, wa')" by (cases ?ea)
      obtain eb wb' where b: "?eb = (eb, wb')" by (cases ?eb)
      have eq: "ea = eb" and R': "same_checkpoint da db wa' wb'"
        using epochs_related [OF R5, of E trl vl da "py_range s max_epoch" model' sl db] a b
        by simp_all
      have b': "?eb = (ea, wb')" using b eq by simp
      show ?thesis
        using R' me v HInt
        by (cases ea) (simp_all add: checkpoint_and_loop_def Let_def ra rb a b')
    next
      case (HStr x)
      then show ?thesis
        using me v R5 by (simp add: checkpoint_and_loop_def Let_def ra rb)
    next
      case (HFloat x)
      then show ?thesis
        using me v R5 by (simp add: checkpoint_and_loop_def Let_def ra rb)
    qed
  qed
qed

lemma grad_enabled_bookkeeping:
  "grad_enabled (snd (bookkeeping E exp_dict savedir_base reset w)) = grad_enabled w"
  by (simp add: bookkeeping_def Let_def print_def save_json_def write_file_def
        delete_experiment_def)

lemma bookkeeping_related:
  assumes init: "reset \<or> same_checkpoint (path_join base (hash_dict E d1))
                            (path_join base (hash_dict E d2)) w w"
  shows "same_checkpoint (path_join base (hash_dict E d1)) (path_join base (hash_dict E d2))
           (snd (bookkeeping E d1 base reset w)) (snd (bookkeeping E d2 base reset w))"
proof -
  let ?da = "path_join base (hash_dict E d1)"
  let ?db = "path_join base (hash_dict E d2)"
  have j: "path_join d ''model.pth'' \<noteq> path_join d ''exp_dict.json''"
    "path_join d ''score_list.pkl'' \<noteq> path_join d ''exp_dict.json''" for d
    using checkpoint_paths_distinct(1,2) [of d] by simp_all
  have f: "map_of (files (snd (bookkeeping E d base reset w))) (path_join (path_join base (hash_dict E d)) p)
         = map_of (files (if reset then delete_experiment E (path_join base (hash_dict E d)) w else w))
             (path_join (path_join base (hash_dict E d)) p)"
    if "path_join (path_join base (hash_dict E d)) p
          \<noteq> path_join (path_join base (hash_dict E d)) ''exp_dict.json''" for d p
    using that by (simp add: files_bookkeeping_reset)
  show ?thesis
  proof (cases reset)
    case True
    then show ?thesis
      using f [OF j(1), of d1] f [OF j(2), of d1] f [OF j(1), of d2] f [OF j(2), of d2]
        map_of_delete_experiment [OF is_under_checkpoint_paths(1), of E ?da w]
        map_of_delete_experiment [OF is_under_checkpoint_paths(2), of E ?da w]
        map_of_delete_experiment [OF is_under_checkpoint_paths(1), of E ?db w]
        map_of_delete_experiment [OF is_under_checkpoint_paths(2), of E ?db w]
      by (simp add: same_checkpoint_def rng_bookkeeping grad_enabled_bookkeeping)
  next
    case False
    then show ?thesis
      using init f [OF j(1), of d1] f [OF j(2), of d1] f [OF j(1), of d2] f [OF j(2), of d2]
      by (simp add: same_checkpoint_def rng_bookkeeping grad_enabled_bookkeeping)
  qed
qed

lemma opt_train_on_batch: "opt (snd (train_on_batch E ge m b)) = opt m"
  by (cases b)
    (auto simp: train_on_batch_def Let_def step_def backward_def zero_grad_def map_parameters_def
       split: sum.splits)

lemma lr_MLP_init: "lr (opt (fst (MLP_init E isz ncls r))) = 1 / 1000"
  by (simp add: MLP_init_def Let_def split: prod.splits)

lemma trainval_related:
  assumes agree: "without_lr d1 = without_lr d2"
    and init: "reset \<or> same_checkpoint (path_join base (hash_dict E d1))
                            (path_join base (hash_dict E d2)) w w"
  shows "fst (trainval E G d1 base reset w) = fst (trainval E G d2 base reset w)
       \<and> same_checkpoint (path_join base (hash_dict E d1)) (path_join base (hash_dict E d2))
           (snd (trainval E G d1 base reset w)) (snd (trainval E G d2 base reset w))"
proof -
  let ?da = "path_join base (hash_dict E d1)"
  let ?db = "path_join base (hash_dict E d2)"
  obtain sa wa where bka: "bookkeeping E d1 base reset w = (sa, wa)"
    by (cases "bookkeeping E d1 base reset w")
  obtain sb wb where bkb: "bookkeeping E d2 base reset w = (sb, wb)"
    by (cases "bookkeeping E d2 base reset w")
  have sa: "sa = ?da" using fst_bookkeeping [of E d1 base reset w] bka by simp
  have sb: "sb = ?db" using fst_bookkeeping [of E d2 base reset w] bkb by simp
  have R3: "same_checkpoint ?da ?db wa wb"
    using bookkeeping_related [OF init] bka bkb by simp
  then have r: "rng wa = rng wb" by (simp add: same_checkpoint_def)
  have ld: "load_datasets G d1 base = load_datasets G d2 base"
    by (rule load_datasets_without_lr [OF agree])
  have lm: "load_model G d1 (rng wa) = load_model G d2 (rng wb)"
    using load_model_without_lr [OF agree, of G "rng wb"] r by simp
  have me: "getitem d1 ''max_epoch'' = getitem d2 ''max_epoch''"
    by (rule getitem_without_lr [OF agree]) simp
  note ta = trainval_unfold [OF bka, of G]
  note tb = trainval_unfold [OF bkb, of G]
  show ?thesis
  proof (cases "load_datasets G d2 base")
    case (Inl e)
    then show ?thesis using R3 ld by (simp add: ta tb)
  next
    case (Inr tv)
    let ?r' = "snd (load_model G d2 (rng wb))"
    have R4: "same_checkpoint ?da ?db (wa\<lparr>rng := ?r'\<rparr>) (wb\<lparr>rng := ?r'\<rparr>)"
      using R3 by (simp add: same_checkpoint_def)
    show ?thesis
    proof (cases "fst (load_model G d2 (rng wb))")
      case (Inl e)
      then show ?thesis using R4 ld lm Inr by (simp add: ta tb)
    next
      case model: (Inr model)
      show ?thesis
        using checkpoint_and_loop_related [OF R4 me, of E "fst tv" "snd tv" model]
          ld lm Inr model
        by (simp add: ta tb sa sb)
    qed
  qed
qed

text \<open>
  Claim C9. Take two configurations that differ only in the value of \<open>'lr'\<close>, and a world
  in which their two directories hold the same checkpoint (or a call with reset). The
  model that \<open>models.get_model\<close> constructs is the same for both, the optimizer of a
  constructed \<open>MLP\<close> has the learning rate \<open>1e-3\<close>, which no training step changes, and
  the two calls of \<open>trainval\<close> have the same outcome and leave the same model state and
  the same score history, each in its directory: the learning rate of the configuration
  is not read.
\<close>

theorem lr_never_read:
  assumes agree: "without_lr d1 = without_lr d2"
    and init: "reset \<or> same_checkpoint (path_join base (hash_dict E d1))
                            (path_join base (hash_dict E d2)) w w"
  shows "load_model G d1 r = load_model G d2 r
       \<and> lr (opt (fst (MLP_init E isz ncls r))) = 1 / 1000
       \<and> opt (snd (train_on_batch E ge m b)) = opt m
       \<and> fst (trainval E G d1 base reset w) = fst (trainval E G d2 base reset w)
       \<and> same_checkpoint (path_join base (hash_dict E d1)) (path_join base (hash_dict E d2))
           (snd (trainval E G d1 base reset w)) (snd (trainval E G d2 base reset w))"
  using trainval_related [OF agree init, of G] load_model_without_lr [OF agree, of G r]
  by (simp add: lr_MLP_init opt_train_on_batch)

theorem lr_never_read_witness:
  "without_lr cfg0 = without_lr cfg_lr
   \<and> same_checkpoint (path_join ''base'' (hash_dict env0 cfg0))
         (path_join ''base'' (hash_dict env0 cfg_lr)) world0 world0
   \<and> path_join ''base'' (hash_dict env0 cfg0) = ''base/a''
   \<and> path_join ''base'' (hash_dict env0 cfg_lr) = ''base/b''
   \<and> load_model (file_globals env0) cfg0 0 = load_model (file_globals env0) cfg_lr 0
   \<and> lr (opt (fst (MLP_init env0 784 10 0))) = 1 / 1000
   \<and> opt (snd (train_on_batch env0 True m0 ([1, 2], [0, 1]))) = opt m0
   \<and> fst (trainval env0 (file_globals env0) cfg0 ''base'' False world0)
       = fst (trainval env0 (file_globals env0) cfg_lr ''base'' False world0)
   \<and> same_checkpoint (path_join ''base'' (hash_dict env0 cfg0))
         (path_join ''base'' (hash_dict env0 cfg_lr))
         (snd (trainval env0 (file_globals env0) cfg0 ''base'' False world0))
         (snd (trainval env0 (file_globals env0) cfg_lr ''base'' False world0))"
proof -
  have a: "without_lr cfg0 = without_lr cfg_lr"
    by code_simp
  have b: "same_checkpoint (path_join ''base'' (hash_dict env0 cfg0))
         (path_join ''base'' (hash_dict env0 cfg_lr)) world0 world0"
    by (simp add: same_checkpoint_def world0_def)
  have c: "path_join ''base'' (hash_dict env0 cfg0) = ''base/a''"
    and d: "path_join ''base'' (hash_dict env0 cfg_lr) = ''base/b''"
    by code_simp+
  have i: "False \<or> same_checkpoint (path_join ''base'' (hash_dict env0 cfg0))
         (path_join ''base'' (hash_dict env0 cfg_lr)) world0 world0"
    using b by simp
  show ?thesis
    using lr_never_read [OF a i, of "file_globals env0" 0 784 10 True m0 "([1, 2], [0, 1])"]
      a b c d
    by blast
qed

end
